theory Spec2Isabelle
  imports Complex_Main
begin

section \<open>Calibration subsystem of the body-measurement wrapper\<close>

text \<open>
  The development follows \<^verbatim>\<open>python/spatiallm_bridge.py\<close> (point cloud builder,
  layout parser, dimension aggregator), \<^verbatim>\<open>python/wrapper.py\<close> (spatial strategy and
  \<^verbatim>\<open>main\<close>) and \<^verbatim>\<open>wrapper.py\<close> (\<^verbatim>\<open>determine_calibration_method\<close>).

  Numbers: Python floats are modelled by \<^typ>\<open>real\<close>, so rounding, infinities and NaN
  are outside the model; every decimal constant of the source is the rational it
  denotes. Exceptions are values of \<open>py_error\<close>, and a function that can raise
  returns \<open>py_error + 'a\<close> with \<open>Inl\<close> for the exception.

  Text: a \<^typ>\<open>char\<close> stands for the Unicode code point of the same number, so a string
  of the model is a Python \<^verbatim>\<open>str\<close> whose code points are all below 256.
\<close>

subsection \<open>Exceptions and checked division\<close>

datatype py_error =
  ValueError | ZeroDivisionError | KeyError | TypeError | OSError | FileNotFoundError | ImportError

definition bind_r :: "py_error + 'a \<Rightarrow> ('a \<Rightarrow> py_error + 'b) \<Rightarrow> py_error + 'b" where
  "bind_r m f = (case m of Inl e \<Rightarrow> Inl e | Inr x \<Rightarrow> f x)"

text \<open>
  Python's \<^verbatim>\<open>a / b\<close> on floats and ints raises \<^verbatim>\<open>ZeroDivisionError\<close> when \<^verbatim>\<open>b\<close> is zero.
\<close>

definition py_truediv :: "real \<Rightarrow> real \<Rightarrow> py_error + real" where
  "py_truediv a b = (if b = 0 then Inl ZeroDivisionError else Inr (a / b))"

subsection \<open>Strings\<close>

text \<open>
  \<^verbatim>\<open>str.lower\<close> on the code points below 256: the upper-case letters are 65 to 90
  (\<^verbatim>\<open>A\<close> to \<^verbatim>\<open>Z\<close>), 192 to 214 and 216 to 222 (the accented capitals, without the
  multiplication sign 215); each moves up by 32, every other code point stays.
\<close>

definition lower_char :: "char \<Rightarrow> char" where
  "lower_char c =
     (let n = (of_char c :: nat)
      in if (65 \<le> n \<and> n \<le> 90) \<or> (192 \<le> n \<and> n \<le> 214) \<or> (216 \<le> n \<and> n \<le> 222)
         then char_of (n + 32) else c)"

definition lower :: "string \<Rightarrow> string" where
  "lower s = map lower_char s"

subsection \<open>Data model of the bridge\<close>

text \<open>
  An entry of \<^verbatim>\<open>objects\<close> is the dict with the keys \<^verbatim>\<open>type\<close>, \<^verbatim>\<open>width\<close>, \<^verbatim>\<open>height\<close>,
  \<^verbatim>\<open>length\<close>, \<^verbatim>\<open>confidence\<close>; an entry of \<^verbatim>\<open>walls\<close> is the dict with the key \<^verbatim>\<open>length\<close>.
\<close>

record detected_object =
  obj_type :: string
  obj_width :: real
  obj_height :: real
  obj_length :: real
  obj_confidence :: real

record wall =
  wall_length :: real

subsection \<open>Dimension aggregator: \<^verbatim>\<open>calculate_calibration_from_objects\<close>\<close>

definition standard_dimensions :: "(string \<times> (real \<times> real)) list" where
  "standard_dimensions =
     [(''door'', (90, 210)),
      (''chair'', (45, 85)),
      (''table'', (120, 75)),
      (''sofa'', (180, 85)),
      (''bed'', (160, 50)),
      (''desk'', (120, 75)),
      (''refrigerator'', (75, 180)),
      (''toilet'', (40, 40)),
      (''sink'', (60, 30)),
      (''bathtub'', (170, 55))]"

definition standard_wall_height :: real where
  "standard_wall_height = 250"

text \<open>
  \<^verbatim>\<open>std / detected if detected > 0 else 0\<close>: the division sits behind its guard.
\<close>

definition guarded_ratio :: "real \<Rightarrow> real \<Rightarrow> py_error + real" where
  "guarded_ratio std detected = (if detected > 0 then py_truediv std detected else Inr 0)"

text \<open>The body of the loop over \<^verbatim>\<open>objects\<close>: \<^verbatim>\<open>ratios\<close> is appended to in place.\<close>

definition object_step ::
  "detected_object \<Rightarrow> (real \<times> real) list \<Rightarrow> py_error + (real \<times> real) list" where
  "object_step obj ratios =
     (case map_of standard_dimensions (lower (obj_type obj)) of
        None \<Rightarrow> Inr ratios
      | Some (std_width, std_height) \<Rightarrow>
          bind_r (guarded_ratio std_width (obj_width obj)) (\<lambda>width_ratio.
          bind_r (guarded_ratio std_height (obj_height obj)) (\<lambda>height_ratio.
            let ratios1 = (if width_ratio > 0
                           then ratios @ [(width_ratio, obj_confidence obj)] else ratios);
                ratios2 = (if height_ratio > 0
                           then ratios1 @ [(height_ratio, obj_confidence obj)] else ratios1)
            in Inr ratios2)))"

fun object_loop ::
  "detected_object list \<Rightarrow> (real \<times> real) list \<Rightarrow> py_error + (real \<times> real) list" where
  "object_loop [] ratios = Inr ratios"
| "object_loop (obj # objs) ratios = bind_r (object_step obj ratios) (object_loop objs)"

text \<open>
  \<^verbatim>\<open>if not ratios and walls:\<close> one ratio from the mean wall length, weight 0.7. The
  division by \<^verbatim>\<open>len(walls)\<close> is behind the truthiness test of \<^verbatim>\<open>walls\<close>; the division
  by \<^verbatim>\<open>avg_wall_length * 100\<close> has no guard.
\<close>

definition wall_step ::
  "wall list \<Rightarrow> (real \<times> real) list \<Rightarrow> py_error + (real \<times> real) list" where
  "wall_step walls ratios =
     (if ratios = [] \<and> walls \<noteq> [] then
        bind_r (py_truediv (sum_list (map wall_length walls)) (real (length walls)))
          (\<lambda>avg_wall_length.
        bind_r (py_truediv standard_wall_height (avg_wall_length * 100))
          (\<lambda>height_ratio. Inr (ratios @ [(height_ratio, 7 / 10)])))
      else Inr ratios)"

text \<open>
  \<^verbatim>\<open>if ratios: return weighted_sum / total_weight if total_weight > 0 else 0.1\<close>, and
  the default \<^verbatim>\<open>0.1\<close> when there is no ratio.
\<close>

definition weighted_average :: "(real \<times> real) list \<Rightarrow> py_error + real" where
  "weighted_average ratios =
     (if ratios \<noteq> [] then
        (let weighted_sum = sum_list (map (\<lambda>(ratio, confidence). ratio * confidence) ratios);
             total_weight = sum_list (map (\<lambda>(ratio, confidence). confidence) ratios)
         in if total_weight > 0 then py_truediv weighted_sum total_weight else Inr (1 / 10))
      else Inr (1 / 10))"

definition calculate_calibration_from_objects ::
  "detected_object list \<Rightarrow> wall list \<Rightarrow> py_error + real" where
  "calculate_calibration_from_objects objects walls =
     bind_r (object_loop objects []) (\<lambda>ratios.
     bind_r (wall_step walls ratios) weighted_average)"

subsection \<open>String operations used by the layout parser\<close>

text \<open>
  Whitespace of \<^verbatim>\<open>str.strip()\<close> and \<^verbatim>\<open>str.split()\<close> among the code points below 256:
  tab, line feed, vertical tab, form feed, carriage return (9 to 13), the separators
  28 to 31, space (32), next line (133, U+0085) and no-break space (160, U+00A0).
\<close>

definition is_space :: "char \<Rightarrow> bool" where
  "is_space c =
     (let n = (of_char c :: nat)
      in (9 \<le> n \<and> n \<le> 13) \<or> (28 \<le> n \<and> n \<le> 32) \<or> n = 133 \<or> n = 160)"

definition strip :: "string \<Rightarrow> string" where
  "strip s = rev (dropWhile is_space (rev (dropWhile is_space s)))"

text \<open>\<^verbatim>\<open>s.split('\n')\<close>: the pieces between line feeds, empty pieces kept.\<close>

fun split_nl :: "string \<Rightarrow> string list" where
  "split_nl [] = [[]]"
| "split_nl (c # cs) =
     (if c = CHR 0x0A then [] # split_nl cs
      else (case split_nl cs of [] \<Rightarrow> [[c]] | l # ls \<Rightarrow> (c # l) # ls))"

definition startswith :: "string \<Rightarrow> string \<Rightarrow> bool" where
  "startswith s p = (take (length p) s = p)"

text \<open>
  \<^verbatim>\<open>s.split()\<close>: the maximal runs of non-whitespace; \<open>cur\<close> holds the run being read,
  reversed.
\<close>

fun split_ws :: "string \<Rightarrow> string \<Rightarrow> string list" where
  "split_ws [] cur = (if cur = [] then [] else [rev cur])"
| "split_ws (c # cs) cur =
     (if is_space c then (if cur = [] then split_ws cs [] else rev cur # split_ws cs [])
      else split_ws cs (c # cur))"

definition split :: "string \<Rightarrow> string list" where
  "split s = split_ws s []"

text \<open>
  The builtin \<^verbatim>\<open>float(s)\<close> on plain decimal literals: an optional sign, digits, an
  optional point and digits, at least one digit in all. \<open>None\<close> stands for
  \<^verbatim>\<open>ValueError\<close>. Exponents, underscores, \<^verbatim>\<open>inf\<close> and \<^verbatim>\<open>nan\<close>, which Python accepts as
  well, are not covered: no statement below relies on their rejection.
\<close>

definition digit_of :: "char \<Rightarrow> nat option" where
  "digit_of c = (let n = (of_char c :: nat) in if 48 \<le> n \<and> n \<le> 57 then Some (n - 48) else None)"

fun digits_nat :: "string \<Rightarrow> nat \<Rightarrow> nat option" where
  "digits_nat [] acc = Some acc"
| "digits_nat (c # cs) acc =
     (case digit_of c of None \<Rightarrow> None | Some d \<Rightarrow> digits_nat cs (10 * acc + d))"

definition unsigned_float :: "string \<Rightarrow> real option" where
  "unsigned_float body =
     (let ip = takeWhile (\<lambda>c. c \<noteq> CHR ''.'') body;
          fp = drop 1 (dropWhile (\<lambda>c. c \<noteq> CHR ''.'') body)
      in if ip = [] \<and> fp = [] then None
         else (case digits_nat ip 0 of
                 None \<Rightarrow> None
               | Some i \<Rightarrow>
                   (case digits_nat fp 0 of
                      None \<Rightarrow> None
                    | Some f \<Rightarrow> Some (real i + real f / 10 ^ length fp))))"

definition py_float :: "string \<Rightarrow> real option" where
  "py_float s =
     (case s of
        [] \<Rightarrow> None
      | c # cs \<Rightarrow>
          if c = CHR ''-'' then map_option uminus (unsigned_float cs)
          else if c = CHR ''+'' then unsigned_float cs
          else unsigned_float s)"

definition to_float :: "string \<Rightarrow> py_error + real" where
  "to_float s = (case py_float s of None \<Rightarrow> Inl ValueError | Some x \<Rightarrow> Inr x)"

subsection \<open>Layout parser: the loop of \<^verbatim>\<open>extract_calibration_from_layout\<close>\<close>

text \<open>
  A \<^verbatim>\<open>WALL\<close> line: \<^verbatim>\<open>if len(parts) >= 8\<close>, the six coordinates are \<^verbatim>\<open>parts[1]\<close> to
  \<^verbatim>\<open>parts[6]\<close>, and the wall's length is \<^verbatim>\<open>np.sqrt\<close> of the sum of squares.
\<close>

definition wall_line :: "string list \<Rightarrow> wall list \<Rightarrow> py_error + wall list" where
  "wall_line parts walls =
     (if length parts \<ge> 8 then
        bind_r (to_float (parts ! 1)) (\<lambda>x1.
        bind_r (to_float (parts ! 2)) (\<lambda>y1.
        bind_r (to_float (parts ! 3)) (\<lambda>z1.
        bind_r (to_float (parts ! 4)) (\<lambda>x2.
        bind_r (to_float (parts ! 5)) (\<lambda>y2.
        bind_r (to_float (parts ! 6)) (\<lambda>z2.
          Inr (walls @ [\<lparr>wall_length = sqrt ((x2 - x1)\<^sup>2 + (y2 - y1)\<^sup>2 + (z2 - z1)\<^sup>2)\<rparr>])))))))
      else Inr walls)"

text \<open>
  An \<^verbatim>\<open>OBJECT\<close> line: \<^verbatim>\<open>if len(parts) >= 11\<close>; the label is \<^verbatim>\<open>parts[1]\<close>, the position
  \<^verbatim>\<open>parts[2..4]\<close> is converted and dropped, the extents are \<^verbatim>\<open>parts[5..7]\<close>, and
  \<^verbatim>\<open>confidence = float(parts[10]) if len(parts) > 10 else 0.9\<close>.
\<close>

definition object_line ::
  "string list \<Rightarrow> detected_object list \<Rightarrow> py_error + detected_object list" where
  "object_line parts objects =
     (if length parts \<ge> 11 then
        (let obj_type = parts ! 1 in
        bind_r (to_float (parts ! 2)) (\<lambda>x.
        bind_r (to_float (parts ! 3)) (\<lambda>y.
        bind_r (to_float (parts ! 4)) (\<lambda>z.
        bind_r (to_float (parts ! 5)) (\<lambda>length'.
        bind_r (to_float (parts ! 6)) (\<lambda>width.
        bind_r (to_float (parts ! 7)) (\<lambda>height.
        bind_r (if length parts > 10 then to_float (parts ! 10) else Inr (9 / 10)) (\<lambda>confidence.
          Inr (objects @
            [\<lparr>obj_type = obj_type, obj_width = width * 100, obj_height = height * 100,
              obj_length = length' * 100, obj_confidence = confidence\<rparr>])))))))))
      else Inr objects)"

definition layout_step ::
  "string \<Rightarrow> detected_object list \<times> wall list \<Rightarrow> py_error + (detected_object list \<times> wall list)"
  where
  "layout_step line st =
     (case st of (objects, walls) \<Rightarrow>
        if startswith line ''WALL'' then
          bind_r (wall_line (split line) walls) (\<lambda>walls'. Inr (objects, walls'))
        else if startswith line ''OBJECT'' then
          bind_r (object_line (split line) objects) (\<lambda>objects'. Inr (objects', walls))
        else Inr (objects, walls))"

fun layout_loop ::
  "string list \<Rightarrow> detected_object list \<times> wall list
     \<Rightarrow> py_error + (detected_object list \<times> wall list)" where
  "layout_loop [] st = Inr st"
| "layout_loop (line # lines) st = bind_r (layout_step line st) (layout_loop lines)"

definition parse_layout :: "string \<Rightarrow> py_error + (detected_object list \<times> wall list)" where
  "parse_layout layout_text = layout_loop (split_nl (strip layout_text)) ([], [])"

record layout_result =
  lr_calibration_factor :: real
  lr_confidence :: real
  lr_objects :: "detected_object list"
  lr_walls :: "wall list"

definition extract_calibration_from_layout :: "string \<Rightarrow> 'p \<Rightarrow> py_error + layout_result" where
  "extract_calibration_from_layout layout_text point_cloud =
     bind_r (parse_layout layout_text) (\<lambda>(objs, ws).
     bind_r (calculate_calibration_from_objects objs ws) (\<lambda>factor.
       Inr \<lparr>lr_calibration_factor = factor, lr_confidence = 9 / 10, lr_objects = objs,
            lr_walls = ws\<rparr>))"

subsection \<open>Point cloud builder: \<^verbatim>\<open>create_point_cloud_from_depth\<close>\<close>

text \<open>
  The depth JSON is a dict that may hold \<^verbatim>\<open>depth_map\<close> (a list of rows) or
  \<^verbatim>\<open>width\<close>, \<^verbatim>\<open>height\<close> and \<^verbatim>\<open>data\<close> (the row-major samples). The array built from
  it is kept as its shape and its row-major cells.
\<close>

record depth_data =
  dd_depth_map :: "real list list option"
  dd_width :: "nat option"
  dd_height :: "nat option"
  dd_data :: "real list option"

record depth_map =
  dm_height :: nat
  dm_width :: nat
  dm_cells :: "real list"

text \<open>
  \<^verbatim>\<open>np.array(data).reshape(height, width)\<close> raises \<^verbatim>\<open>ValueError\<close> unless
  \<^verbatim>\<open>len(data) = height * width\<close>. A \<^verbatim>\<open>depth_map\<close> that is empty or ragged gives no
  two-dimensional array, and \<^verbatim>\<open>height, width = depth_map.shape\<close> raises
  \<^verbatim>\<open>ValueError\<close> in the caller; the model raises it here.
\<close>

definition convert_depth_data_to_depth_map :: "depth_data \<Rightarrow> py_error + depth_map" where
  "convert_depth_data_to_depth_map d =
     (case dd_depth_map d of
        Some rows \<Rightarrow>
          (case rows of
             [] \<Rightarrow> Inl ValueError
           | r # rs \<Rightarrow>
               if list_all (\<lambda>r'. length r' = length r) rs
               then Inr \<lparr>dm_height = length rows, dm_width = length r, dm_cells = concat rows\<rparr>
               else Inl ValueError)
      | None \<Rightarrow>
          (case (dd_width d, dd_height d, dd_data d) of
             (Some width, Some height, Some data) \<Rightarrow>
               if length data = height * width
               then Inr \<lparr>dm_height = height, dm_width = width, dm_cells = data\<rparr>
               else Inl ValueError
           | _ \<Rightarrow> Inl ValueError))"

text \<open>
  The image read by \<^verbatim>\<open>cv2.imread\<close>: its shape and the \<^verbatim>\<open>(b, g, r)\<close> triple at row \<open>v\<close>,
  column \<open>u\<close>. An unreadable path gives \<^verbatim>\<open>None\<close>.
\<close>

record image =
  img_height :: nat
  img_width :: nat
  img_pixel :: "nat \<Rightarrow> nat \<Rightarrow> nat \<times> nat \<times> nat"

text \<open>
  The intrinsics after \<^verbatim>\<open>camera_intrinsics.get\<close>: a key that is absent reads \<^verbatim>\<open>None\<close>.
  The dict itself is an association list; \<^verbatim>\<open>None\<close> and the empty dict are falsy.
\<close>

record intrinsics =
  fx :: "real option"
  fy :: "real option"
  cx :: "real option"
  cy :: "real option"

definition resolve_intrinsics :: "(string \<times> real) list option \<Rightarrow> depth_map \<Rightarrow> intrinsics" where
  "resolve_intrinsics camera_intrinsics dm =
     (case camera_intrinsics of
        Some (kv # kvs) \<Rightarrow>
          \<lparr>fx = map_of (kv # kvs) ''fx'', fy = map_of (kv # kvs) ''fy'',
           cx = map_of (kv # kvs) ''cx'', cy = map_of (kv # kvs) ''cy''\<rparr>
      | _ \<Rightarrow>
          \<lparr>fx = Some (real (dm_width dm) * (8 / 10)), fy = Some (real (dm_width dm) * (8 / 10)),
           cx = Some (real (dm_width dm) / 2), cy = Some (real (dm_height dm) / 2)\<rparr>)"

text \<open>
  \<^verbatim>\<open>x = (u - cx) * depth / fx\<close>, \<^verbatim>\<open>y = (v - cy) * depth / fy\<close>, \<^verbatim>\<open>z = depth\<close>. Arithmetic on
  \<^verbatim>\<open>None\<close> raises \<^verbatim>\<open>TypeError\<close>. The dividend is a numpy scalar, which divides by zero
  without raising (the quotient is an infinity or a NaN); such quotients are outside
  the model, and the statements on coordinates below assume non-zero focal lengths.
\<close>

definition back_project ::
  "intrinsics \<Rightarrow> nat \<Rightarrow> nat \<Rightarrow> real \<Rightarrow> py_error + (real \<times> real \<times> real)" where
  "back_project k u v depth =
     (case (cx k, fx k, cy k, fy k) of
        (Some cx', Some fx', Some cy', Some fy') \<Rightarrow>
          Inr ((real u - cx') * depth / fx', (real v - cy') * depth / fy', depth)
      | _ \<Rightarrow> Inl TypeError)"

text \<open>The colour of a pixel: \<^verbatim>\<open>[r, g, b]\<close> from the image when in bounds, else gray.\<close>

definition pixel_color :: "image \<Rightarrow> nat \<Rightarrow> nat \<Rightarrow> nat \<times> nat \<times> nat" where
  "pixel_color im u v =
     (if u < img_width im \<and> v < img_height im
      then (case img_pixel im v u of (b, g, r) \<Rightarrow> (r, g, b))
      else (128, 128, 128))"

type_synonym cloud = "(real \<times> real \<times> real) list \<times> (nat \<times> nat \<times> nat) list"

text \<open>A \<^verbatim>\<open>for\<close> loop over a list whose body may raise.\<close>

fun for_loop :: "('a \<Rightarrow> 's \<Rightarrow> py_error + 's) \<Rightarrow> 'a list \<Rightarrow> 's \<Rightarrow> py_error + 's" where
  "for_loop body [] st = Inr st"
| "for_loop body (x # xs) st = bind_r (body x st) (for_loop body xs)"

definition pixel_step ::
  "intrinsics \<Rightarrow> image \<Rightarrow> depth_map \<Rightarrow> nat \<Rightarrow> nat \<Rightarrow> cloud \<Rightarrow> py_error + cloud" where
  "pixel_step k im dm v u st =
     (case st of (points, colors) \<Rightarrow>
        (let depth = dm_cells dm ! (v * dm_width dm + u) in
         if depth > 0 then
           bind_r (back_project k u v depth) (\<lambda>p.
             Inr (points @ [p], colors @ [pixel_color im u v]))
         else Inr (points, colors)))"

definition scan_pixels :: "intrinsics \<Rightarrow> image \<Rightarrow> depth_map \<Rightarrow> py_error + cloud" where
  "scan_pixels k im dm =
     for_loop (\<lambda>v. for_loop (pixel_step k im dm v) [0..<dm_width dm]) [0..<dm_height dm] ([], [])"

text \<open>
  The function writes the points and colours to a temporary PLY file, one vertex a
  line, after a header with \<^verbatim>\<open>len(points)\<close>; the model returns the two lists.
\<close>

definition create_point_cloud_from_depth ::
  "depth_data \<Rightarrow> image option \<Rightarrow> (string \<times> real) list option \<Rightarrow> py_error + cloud" where
  "create_point_cloud_from_depth d image_file camera_intrinsics =
     bind_r (convert_depth_data_to_depth_map d) (\<lambda>dm.
       (case image_file of
          None \<Rightarrow> Inl ValueError
        | Some im \<Rightarrow> scan_pixels (resolve_intrinsics camera_intrinsics dm) im dm))"


subsection \<open>Truthiness of optional command-line values\<close>

text \<open>
  An \<^verbatim>\<open>argparse\<close> option that was not given is \<^verbatim>\<open>None\<close>. \<^verbatim>\<open>if args.x:\<close> is false for
  \<^verbatim>\<open>None\<close>, for the float \<^verbatim>\<open>0.0\<close> and for the empty string.
\<close>

definition truthy_float :: "real option \<Rightarrow> bool" where
  "truthy_float x = (case x of None \<Rightarrow> False | Some r \<Rightarrow> r \<noteq> 0)"

definition truthy_str :: "string option \<Rightarrow> bool" where
  "truthy_str x = (case x of None \<Rightarrow> False | Some t \<Rightarrow> t \<noteq> [])"

datatype calibration_method = Reference | Height | Spatial | Direct

subsection \<open>\<^verbatim>\<open>wrapper.py\<close>: \<^verbatim>\<open>determine_calibration_method\<close>\<close>

record wrapper_args =
  wa_calibration_method :: "calibration_method option"
  wa_reference_object :: "string option"
  wa_ref_width :: "real option"
  wa_ref_height :: "real option"
  wa_person_height :: "real option"
  wa_calibration_factor :: "real option"
  wa_depth_map :: "string option"
  wa_point_cloud :: "string option"
  wa_camera_intrinsics :: "string option"

definition determine_calibration_method :: "wrapper_args \<Rightarrow> calibration_method" where
  "determine_calibration_method args =
     (if truthy_float (wa_calibration_factor args) then Direct
      else if truthy_float (wa_person_height args) then Height
      else if truthy_str (wa_depth_map args) \<or> truthy_str (wa_point_cloud args) then Spatial
      else if truthy_str (wa_reference_object args)
              \<or> (truthy_float (wa_ref_width args) \<and> truthy_float (wa_ref_height args))
      then Reference
      else Reference)"

text \<open>
  \<^verbatim>\<open>args.calibration_method if args.calibration_method else determine_calibration_method(args)\<close>:
  a method named on the command line is taken as it is.
\<close>

definition selected_method :: "wrapper_args \<Rightarrow> calibration_method" where
  "selected_method args =
     (case wa_calibration_method args of
        Some m \<Rightarrow> m
      | None \<Rightarrow> determine_calibration_method args)"

subsection \<open>\<^verbatim>\<open>python/wrapper.py\<close>: the calibration strategies\<close>

text \<open>
  The calibration dict: \<^verbatim>\<open>method\<close>, \<^verbatim>\<open>factor\<close>, \<^verbatim>\<open>confidence\<close>, \<^verbatim>\<open>unit\<close>, the key \<^verbatim>\<open>type\<close>
  that only the spatial strategy sets, and the \<^verbatim>\<open>reference\<close> entry (type, width,
  height) that only the reference strategy sets.
\<close>

record calibration =
  cal_type :: "string option"
  cal_method :: string
  cal_factor :: real
  cal_confidence :: real
  cal_unit :: string
  cal_reference :: "(string \<times> real \<times> real) option"

definition reference_objects :: "(string \<times> (real \<times> real)) list" where
  "reference_objects =
     [(''a4_paper'', (21, 297 / 10)),
      (''letter_paper'', (2159 / 100, 2794 / 100)),
      (''credit_card'', (856 / 100, 54 / 10)),
      (''dollar_bill'', (156 / 10, 66 / 10)),
      (''euro_bill'', (12, 62 / 10)),
      (''30cm_ruler'', (30, 3))]"

definition get_reference_object_dimensions :: "string \<Rightarrow> py_error + (real \<times> real)" where
  "get_reference_object_dimensions reference_object =
     (case map_of reference_objects reference_object of
        Some d \<Rightarrow> Inr d
      | None \<Rightarrow> Inl ValueError)"

text \<open>
  The person detectors are the pose library and the contour fallback; each returns a
  height in pixels or \<^verbatim>\<open>None\<close>. They are parameters of the model.
\<close>

definition calculate_height_calibration ::
  "('i \<Rightarrow> real option) \<Rightarrow> ('i \<Rightarrow> real option) \<Rightarrow> 'i \<Rightarrow> real \<Rightarrow> py_error + real" where
  "calculate_height_calibration detect_person_height_mediapipe detect_person_height_fallback
       im person_height_cm =
     (let person_height_px =
            (case detect_person_height_mediapipe im of
               None \<Rightarrow> detect_person_height_fallback im
             | Some h \<Rightarrow> Some h)
      in case person_height_px of
           None \<Rightarrow> Inl ValueError
         | Some px \<Rightarrow> py_truediv person_height_cm px)"

text \<open>The reference object is taken as detected at 200 by 150 pixels.\<close>

definition calculate_reference_calibration :: "'i \<Rightarrow> real \<Rightarrow> real \<Rightarrow> real" where
  "calculate_reference_calibration im ref_width_cm ref_height_cm =
     (let detected_ref_width_px = 200;
          detected_ref_height_px = 150;
          width_calibration = ref_width_cm / detected_ref_width_px;
          height_calibration = ref_height_cm / detected_ref_height_px
      in (width_calibration + height_calibration) / 2)"

text \<open>
  The spatial strategy. Its collaborators are parameters: whether the bridge module
  was imported, the reading of a JSON file (\<^verbatim>\<open>open\<close> and \<^verbatim>\<open>json.load\<close>, which may raise)
  and \<^verbatim>\<open>process_lidar_data\<close> of the bridge, which returns a dict or raises. The
  exceptions are those below \<^verbatim>\<open>Exception\<close>, which is what the handler catches.
\<close>

record 'j spatial_env =
  bridge_available :: bool
  load_json :: "string \<Rightarrow> py_error + 'j"
  process_lidar_data ::
    "string \<Rightarrow> 'j option \<Rightarrow> string option \<Rightarrow> 'j option \<Rightarrow> py_error + (string \<times> real) list"

definition subscript :: "(string \<times> real) list \<Rightarrow> string \<Rightarrow> py_error + real" where
  "subscript d key = (case map_of d key of None \<Rightarrow> Inl KeyError | Some x \<Rightarrow> Inr x)"

definition load_optional :: "'j spatial_env \<Rightarrow> string option \<Rightarrow> py_error + 'j option" where
  "load_optional env path =
     (case path of
        None \<Rightarrow> Inr None
      | Some p \<Rightarrow> if p = [] then Inr None else bind_r (load_json env p) (\<lambda>j. Inr (Some j)))"

text \<open>The body of the \<^verbatim>\<open>try\<close> block.\<close>

definition spatial_try ::
  "'j spatial_env \<Rightarrow> string \<Rightarrow> string option \<Rightarrow> string option \<Rightarrow> string option
     \<Rightarrow> py_error + calibration" where
  "spatial_try env image_path depth_map_path point_cloud_path camera_intrinsics_path =
     bind_r (load_optional env camera_intrinsics_path) (\<lambda>camera_intrinsics.
     bind_r (load_optional env depth_map_path) (\<lambda>depth_data.
     bind_r (process_lidar_data env image_path depth_data point_cloud_path camera_intrinsics)
       (\<lambda>calibration_result.
     bind_r (subscript calibration_result ''calibration_factor'') (\<lambda>f.
     bind_r (subscript calibration_result ''confidence'') (\<lambda>c.
       Inr \<lparr>cal_type = Some ''spatial'', cal_method = ''spatial'', cal_factor = f,
            cal_confidence = c, cal_unit = ''cm/pixel'', cal_reference = None\<rparr>)))))"

definition calculate_spatial_calibration ::
  "'j spatial_env \<Rightarrow> string \<Rightarrow> string option \<Rightarrow> string option \<Rightarrow> string option \<Rightarrow> calibration"
  where
  "calculate_spatial_calibration env image_path depth_map_path point_cloud_path
       camera_intrinsics_path =
     (if \<not> bridge_available env then
        \<lparr>cal_type = Some ''spatial'', cal_method = ''spatial'', cal_factor = 5 / 100,
         cal_confidence = 8 / 10, cal_unit = ''cm/pixel'', cal_reference = None\<rparr>
      else
        (case spatial_try env image_path depth_map_path point_cloud_path camera_intrinsics_path of
           Inr r \<Rightarrow> r
         | Inl e \<Rightarrow>
             \<lparr>cal_type = Some ''spatial'', cal_method = ''spatial'', cal_factor = 5 / 100,
              cal_confidence = 7 / 10, cal_unit = ''cm/pixel'', cal_reference = None\<rparr>))"

subsection \<open>\<^verbatim>\<open>python/wrapper.py\<close>: \<^verbatim>\<open>main\<close>\<close>

text \<open>
  \<^verbatim>\<open>--calibration\<close> is required and is one of the four method names. The rest of the
  process is a parameter: whether the input path is a file, \<^verbatim>\<open>os.makedirs\<close>, the image
  \<^verbatim>\<open>cv2.imread\<close> gives for the input path, the two person detectors, \<^verbatim>\<open>json.loads\<close>,
  the spatial collaborators, the drawing on the image (the visualisation of the
  method and the text overlay, all calls of the image library) and \<^verbatim>\<open>cv2.imwrite\<close>.
\<close>

record py_args =
  pa_input :: string
  pa_output :: string
  pa_calibration :: calibration_method
  pa_reference_object :: "string option"
  pa_reference_width :: "real option"
  pa_reference_height :: "real option"
  pa_person_height :: "real option"
  pa_depth_map :: "string option"
  pa_camera_intrinsics :: "string option"
  pa_calibration_factor :: "real option"

record ('i, 'j) main_env =
  isfile :: "string \<Rightarrow> bool"
  makedirs :: "string \<Rightarrow> py_error + unit"
  imread :: "string \<Rightarrow> 'i option"
  detect_person_height_mediapipe :: "'i \<Rightarrow> real option"
  detect_person_height_fallback :: "'i \<Rightarrow> real option"
  json_loads :: "string \<Rightarrow> py_error + 'j"
  spatial :: "'j spatial_env"
  draw :: "'i \<Rightarrow> calibration \<Rightarrow> py_error + 'i"
  imwrite :: "string \<Rightarrow> 'i \<Rightarrow> py_error + unit"

text \<open>
  \<^verbatim>\<open>os.path.dirname\<close> on a POSIX path: the part up to the last slash, without its
  trailing slashes unless it is made of slashes only.
\<close>

definition dirname :: "string \<Rightarrow> string" where
  "dirname p =
     (let head = rev (dropWhile (\<lambda>c. c \<noteq> CHR ''/'') (rev p))
      in if head \<noteq> [] \<and> \<not> list_all (\<lambda>c. c = CHR ''/'') head
         then rev (dropWhile (\<lambda>c. c = CHR ''/'') (rev head))
         else head)"

definition reference_dimensions :: "py_args \<Rightarrow> py_error + (real \<times> real)" where
  "reference_dimensions args =
     (if truthy_str (pa_reference_object args)
      then get_reference_object_dimensions (the (pa_reference_object args))
      else if truthy_float (pa_reference_width args) \<and> truthy_float (pa_reference_height args)
      then Inr (the (pa_reference_width args), the (pa_reference_height args))
      else Inl ValueError)"

text \<open>The \<^verbatim>\<open>if\<close>/\<^verbatim>\<open>elif\<close> chain over the named method.\<close>

definition dispatch_calibration ::
  "('i, 'j) main_env \<Rightarrow> py_args \<Rightarrow> py_error + calibration" where
  "dispatch_calibration env args =
     (if pa_calibration args = Direct \<and> truthy_float (pa_calibration_factor args) then
        Inr \<lparr>cal_type = None, cal_method = ''direct'',
             cal_factor = the (pa_calibration_factor args), cal_confidence = 1,
             cal_unit = ''cm/pixel'', cal_reference = None\<rparr>
      else if pa_calibration args = Height \<and> truthy_float (pa_person_height args) then
        (case imread env (pa_input args) of
           None \<Rightarrow> Inl ValueError
         | Some im \<Rightarrow>
             bind_r (calculate_height_calibration (detect_person_height_mediapipe env)
                       (detect_person_height_fallback env) im (the (pa_person_height args)))
               (\<lambda>calibration_factor.
                  Inr \<lparr>cal_type = None, cal_method = ''height'', cal_factor = calibration_factor,
                       cal_confidence = 9 / 10, cal_unit = ''cm/pixel'', cal_reference = None\<rparr>))
      else if pa_calibration args = Reference then
        bind_r (reference_dimensions args) (\<lambda>(ref_width, ref_height).
          (case imread env (pa_input args) of
             None \<Rightarrow> Inl ValueError
           | Some im \<Rightarrow>
               Inr \<lparr>cal_type = None, cal_method = ''reference'',
                    cal_factor = calculate_reference_calibration im ref_width ref_height,
                    cal_confidence = 85 / 100, cal_unit = ''cm/pixel'',
                    cal_reference =
                      Some (if truthy_str (pa_reference_object args)
                            then the (pa_reference_object args) else ''custom'',
                            ref_width, ref_height)\<rparr>))
      else if pa_calibration args = Spatial then
        bind_r (if truthy_str (pa_camera_intrinsics args)
                then bind_r (json_loads env (the (pa_camera_intrinsics args))) (\<lambda>j. Inr (Some j))
                else Inr None) (\<lambda>camera_intrinsics.
          Inr (calculate_spatial_calibration (spatial env) (pa_input args) (pa_depth_map args)
                 None (pa_camera_intrinsics args)))
      else Inl ValueError)"

text \<open>
  The start of the \<^verbatim>\<open>try\<close> block of \<^verbatim>\<open>main\<close>, up to the calibration result: the
  input must be a file (\<^verbatim>\<open>FileNotFoundError\<close> otherwise), the directory of the output
  is created, then the method is dispatched.
\<close>

definition main_calibration :: "('i, 'j) main_env \<Rightarrow> py_args \<Rightarrow> py_error + calibration" where
  "main_calibration env args =
     (if \<not> isfile env (pa_input args) then Inl FileNotFoundError
      else bind_r (makedirs env (dirname (pa_output args))) (\<lambda>u. dispatch_calibration env args))"

text \<open>
  \<^verbatim>\<open>process_image_with_calibration\<close>: the image is read again (\<^verbatim>\<open>ValueError\<close> when it
  cannot be), the height and reference visualisations divide by the factor, and the
  picture is drawn. The mock measurements are random numbers scaled by the factor and
  are left out.
\<close>

definition process_image_with_calibration ::
  "('i, 'j) main_env \<Rightarrow> string \<Rightarrow> calibration \<Rightarrow> py_error + 'i" where
  "process_image_with_calibration env image_path cal =
     (case imread env image_path of
        None \<Rightarrow> Inl ValueError
      | Some im \<Rightarrow>
          (let calibration_factor = cal_factor cal in
           bind_r
             (if cal_method cal = ''height'' then
                bind_r (py_truediv 175 calibration_factor) (\<lambda>person_height_px. Inr ())
              else if cal_method cal = ''reference'' then
                bind_r (get_reference_object_dimensions ''a4_paper'') (\<lambda>(w, h).
                bind_r (py_truediv w calibration_factor) (\<lambda>width_px.
                bind_r (py_truediv h calibration_factor) (\<lambda>height_px. Inr ())))
              else Inr ())
             (\<lambda>u. draw env im cal)))"

text \<open>
  The \<^verbatim>\<open>try\<close> block of \<^verbatim>\<open>main\<close>: \<open>Inr\<close> is the calibration printed in the result,
  \<open>Inl\<close> the exception that the handler turns into the error output and exit code 1.
\<close>

definition main :: "('i, 'j) main_env \<Rightarrow> py_args \<Rightarrow> py_error + calibration" where
  "main env args =
     bind_r (main_calibration env args) (\<lambda>calibration_result.
     bind_r (process_image_with_calibration env (pa_input args) calibration_result)
       (\<lambda>visualized_image.
     bind_r (imwrite env (pa_output args) visualized_image) (\<lambda>u. Inr calibration_result)))"

subsection \<open>Notions used in the statements\<close>

text \<open>The depth coordinate of each point of a cloud, in order.\<close>

definition depths :: "(real \<times> real \<times> real) list \<Rightarrow> real list" where
  "depths points = map (\<lambda>p. snd (snd p)) points"

text \<open>What the cell \<open>i\<close> of a depth map contributes: its sample when positive, nothing else.\<close>

definition valid_at :: "real list \<Rightarrow> nat \<Rightarrow> real list" where
  "valid_at cells i = (if cells ! i > 0 then [cells ! i] else [])"

text \<open>
  Intrinsics under which no arithmetic meets \<^verbatim>\<open>None\<close>: no dict, the empty dict, or a
  dict with the four keys.
\<close>

definition complete_intrinsics :: "(string \<times> real) list option \<Rightarrow> bool" where
  "complete_intrinsics camera_intrinsics =
     (case camera_intrinsics of
        Some (kv # kvs) \<Rightarrow>
          map_of (kv # kvs) ''fx'' \<noteq> None \<and> map_of (kv # kvs) ''fy'' \<noteq> None \<and>
          map_of (kv # kvs) ''cx'' \<noteq> None \<and> map_of (kv # kvs) ''cy'' \<noteq> None
      | _ \<Rightarrow> True)"

text \<open>
  The lines of the grammar that carry no directive: those that start with neither
  \<^verbatim>\<open>WALL\<close> nor \<^verbatim>\<open>OBJECT\<close>, a \<^verbatim>\<open>WALL\<close> line with fewer than six fields after the
  keyword (fewer than 7 tokens) and an \<^verbatim>\<open>OBJECT\<close> line with fewer than ten fields after
  the keyword (fewer than 11 tokens).
\<close>

definition skipped :: "string \<Rightarrow> bool" where
  "skipped line =
     (if startswith line ''WALL'' then length (split line) < 7
      else if startswith line ''OBJECT'' then length (split line) < 11
      else True)"

text \<open>The name of a method on the command line and in the result.\<close>

fun method_name :: "calibration_method \<Rightarrow> string" where
  "method_name Reference = ''reference''"
| "method_name Height = ''height''"
| "method_name Spatial = ''spatial''"
| "method_name Direct = ''direct''"

subsection \<open>Concrete inputs\<close>

definition depth_example :: depth_data where
  "depth_example =
     \<lparr>dd_depth_map = None, dd_width = Some 2, dd_height = Some 2, dd_data = Some [1, 0, - 1, 2]\<rparr>"

definition image_example :: image where
  "image_example = \<lparr>img_height = 1, img_width = 2, img_pixel = (\<lambda>v u. (10, 20, 30))\<rparr>"

definition door_example :: "real \<Rightarrow> detected_object" where
  "door_example len =
     \<lparr>obj_type = ''door'', obj_width = 45, obj_height = 105, obj_length = len, obj_confidence = 1\<rparr>"

definition unsure_door :: detected_object where
  "unsure_door =
     \<lparr>obj_type = ''door'', obj_width = 45, obj_height = 105, obj_length = 5, obj_confidence = 0\<rparr>"

definition failing_bridge :: "unit spatial_env" where
  "failing_bridge =
     \<lparr>bridge_available = True, load_json = (\<lambda>path. Inr ()),
      process_lidar_data = (\<lambda>image_path depth_data point_cloud_path intr. Inl ValueError)\<rparr>"

definition example_env :: "(unit, unit) main_env" where
  "example_env =
     \<lparr>isfile = (\<lambda>path. True), makedirs = (\<lambda>dir. Inr ()), imread = (\<lambda>path. Some ()),
      detect_person_height_mediapipe = (\<lambda>im. Some 500),
      detect_person_height_fallback = (\<lambda>im. None), json_loads = (\<lambda>text. Inr ()),
      spatial = failing_bridge, draw = (\<lambda>im cal. Inr im), imwrite = (\<lambda>path im. Inr ())\<rparr>"

definition height_with_factor :: py_args where
  "height_with_factor =
     \<lparr>pa_input = ''photo.jpg'', pa_output = ''out/result.jpg'', pa_calibration = Height,
      pa_reference_object = None,
      pa_reference_width = None, pa_reference_height = None, pa_person_height = Some 175,
      pa_depth_map = None, pa_camera_intrinsics = None, pa_calibration_factor = Some (1 / 2)\<rparr>"

definition direct_with_height :: py_args where
  "direct_with_height = height_with_factor\<lparr>pa_calibration := Direct\<rparr>"

definition no_inputs :: wrapper_args where
  "no_inputs =
     \<lparr>wa_calibration_method = None, wa_reference_object = None, wa_ref_width = None,
      wa_ref_height = None, wa_person_height = None, wa_calibration_factor = None,
      wa_depth_map = None, wa_point_cloud = None, wa_camera_intrinsics = None\<rparr>"

section \<open>Properties\<close>

subsection \<open>Sequencing and loops\<close>

lemma bind_r_Inr: "bind_r (Inr x) f = f x"
  by (simp add: bind_r_def)

lemma bind_r_Inl: "bind_r (Inl e) f = Inl e"
  by (simp add: bind_r_def)

lemma upt_shift: "[a..<a + w] = map (\<lambda>u. a + u) [0..<w]"
  by (induction w) simp_all

lemma upt_rows: "[0..<h * w + w] = [0..<h * w] @ map (\<lambda>u. h * w + u) [0..<w]"
  using upt_add_eq_append [of 0 "h * w" w] upt_shift [of "h * w" w] by simp

lemma concat_rows:
  "concat (map (\<lambda>v. concat (map (\<lambda>u. g (v * w + u)) [0..<w])) [0..<h]) = concat (map g [0..<h * w])"
proof (induction h)
  case 0
  show ?case by simp
next
  case (Suc h)
  have "concat (map g [0..<Suc h * w]) =
        concat (map g [0..<h * w]) @ concat (map (\<lambda>u. g (h * w + u)) [0..<w])"
    by (simp add: upt_rows add.commute [of w] comp_def)
  then show ?case using Suc by simp
qed


lemma bind_r_eq_Inr: "bind_r m f = Inr y \<Longrightarrow> \<exists>x. m = Inr x \<and> f x = Inr y"
  by (cases m) (simp_all add: bind_r_def)

lemma for_loop_append:
  assumes step: "\<And>x s s'. body x s = Inr s' \<Longrightarrow> f s' = f s @ g x"
    and run: "for_loop body xs s = Inr s'"
  shows "f s' = f s @ concat (map g xs)"
  using run
proof (induction xs arbitrary: s)
  case Nil
  then show ?case by simp
next
  case (Cons x xs)
  from Cons.prems obtain s1 where s1: "body x s = Inr s1" and rest: "for_loop body xs s1 = Inr s'"
    using bind_r_eq_Inr [of "body x s" "for_loop body xs" s'] by auto
  have "f s' = f s1 @ concat (map g xs)" using Cons.IH [OF rest] .
  moreover have "f s1 = f s @ g x" using step [OF s1] .
  ultimately show ?case by simp
qed

lemma for_loop_total:
  assumes "\<And>x s. \<exists>s'. body x s = Inr s'"
  shows "\<exists>s'. for_loop body xs s = Inr s'"
proof (induction xs arbitrary: s)
  case Nil
  show ?case by simp
next
  case (Cons x xs)
  from assms obtain s1 where "body x s = Inr s1" by blast
  then show ?case using Cons.IH [of s1] by (simp add: bind_r_Inr)
qed

subsection \<open>Point cloud builder\<close>

lemma back_project_depth: "back_project k u v depth = Inr p \<Longrightarrow> snd (snd p) = depth"
  by (auto simp: back_project_def split: option.splits)

lemma pixel_step_depths:
  assumes "pixel_step k im dm v u s = Inr s'"
  shows "depths (fst s') = depths (fst s) @ valid_at (dm_cells dm) (v * dm_width dm + u)"
proof (cases s)
  case (Pair ps cs)
  show ?thesis
  proof (cases "dm_cells dm ! (v * dm_width dm + u) > 0")
    case True
    with assms Pair obtain p where p: "back_project k u v (dm_cells dm ! (v * dm_width dm + u)) = Inr p"
        and s': "s' = (ps @ [p], cs @ [pixel_color im u v])"
      using bind_r_eq_Inr
        [of "back_project k u v (dm_cells dm ! (v * dm_width dm + u))"
            "\<lambda>p. Inr (ps @ [p], cs @ [pixel_color im u v])" s']
      by (auto simp: pixel_step_def)
    show ?thesis using True Pair s' back_project_depth [OF p] by (simp add: depths_def valid_at_def)
  next
    case False
    with assms Pair have "s' = s" by (simp add: pixel_step_def)
    then show ?thesis using False by (simp add: valid_at_def)
  qed
qed

lemma pixel_step_count:
  assumes "pixel_step k im dm v u s = Inr s'"
  shows "map (\<lambda>_. ()) (snd s') =
         map (\<lambda>_. ()) (snd s) @ map (\<lambda>_. ()) (valid_at (dm_cells dm) (v * dm_width dm + u))"
proof (cases s)
  case (Pair ps cs)
  show ?thesis
  proof (cases "dm_cells dm ! (v * dm_width dm + u) > 0")
    case True
    with assms Pair obtain p where s': "s' = (ps @ [p], cs @ [pixel_color im u v])"
      using bind_r_eq_Inr
        [of "back_project k u v (dm_cells dm ! (v * dm_width dm + u))"
            "\<lambda>p. Inr (ps @ [p], cs @ [pixel_color im u v])" s']
      by (auto simp: pixel_step_def)
    show ?thesis using True Pair s' by (simp add: valid_at_def)
  next
    case False
    with assms Pair have "s' = s" by (simp add: pixel_step_def)
    then show ?thesis using False by (simp add: valid_at_def)
  qed
qed

lemma valid_at_filter: "concat (map (valid_at cells) is) = filter (\<lambda>s. s > 0) (map (\<lambda>i. cells ! i) is)"
  by (induction "is") (simp_all add: valid_at_def)

lemma scan_depths:
  assumes "scan_pixels k im dm = Inr s'" and len: "length (dm_cells dm) = dm_height dm * dm_width dm"
  shows "depths (fst s') = filter (\<lambda>s. s > 0) (dm_cells dm)"
proof -
  let ?g = "valid_at (dm_cells dm)"
  have "depths (fst s') = depths (fst (([], []) :: cloud)) @
      concat (map (\<lambda>v. concat (map (\<lambda>u. ?g (v * dm_width dm + u)) [0..<dm_width dm])) [0..<dm_height dm])"
  proof (rule for_loop_append
      [where body = "\<lambda>v. for_loop (pixel_step k im dm v) [0..<dm_width dm]"
         and f = "\<lambda>s :: cloud. depths (fst s)"])
    show "for_loop (\<lambda>v. for_loop (pixel_step k im dm v) [0..<dm_width dm]) [0..<dm_height dm]
            ([], []) = Inr s'"
      using assms(1) unfolding scan_pixels_def .
  next
    fix v s t
    assume run: "for_loop (pixel_step k im dm v) [0..<dm_width dm] s = Inr t"
    show "depths (fst t) =
          depths (fst s) @ concat (map (\<lambda>u. ?g (v * dm_width dm + u)) [0..<dm_width dm])"
      by (rule for_loop_append [where f = "\<lambda>s :: cloud. depths (fst s)", OF _ run])
         (rule pixel_step_depths)
  qed
  also have "\<dots> = concat (map ?g [0..<dm_height dm * dm_width dm])"
    by (simp add: concat_rows depths_def)
  also have "\<dots> = filter (\<lambda>s. s > 0) (dm_cells dm)"
    using len map_nth [of "dm_cells dm"] by (simp add: valid_at_filter)
  finally show ?thesis .
qed


lemma scan_colors:
  assumes "scan_pixels k im dm = Inr s'" and len: "length (dm_cells dm) = dm_height dm * dm_width dm"
  shows "length (snd s') = length (filter (\<lambda>s. s > 0) (dm_cells dm))"
proof -
  let ?g = "\<lambda>i. map (\<lambda>_. ()) (valid_at (dm_cells dm) i)"
  have "map (\<lambda>_. ()) (snd s') = map (\<lambda>_. ()) (snd (([], []) :: cloud)) @
      concat (map (\<lambda>v. concat (map (\<lambda>u. ?g (v * dm_width dm + u)) [0..<dm_width dm])) [0..<dm_height dm])"
  proof (rule for_loop_append
      [where body = "\<lambda>v. for_loop (pixel_step k im dm v) [0..<dm_width dm]"
         and f = "\<lambda>s :: cloud. map (\<lambda>_. ()) (snd s)"])
    show "for_loop (\<lambda>v. for_loop (pixel_step k im dm v) [0..<dm_width dm]) [0..<dm_height dm]
            ([], []) = Inr s'"
      using assms(1) unfolding scan_pixels_def .
  next
    fix v s t
    assume run: "for_loop (pixel_step k im dm v) [0..<dm_width dm] s = Inr t"
    show "map (\<lambda>_. ()) (snd t) =
          map (\<lambda>_. ()) (snd s) @ concat (map (\<lambda>u. ?g (v * dm_width dm + u)) [0..<dm_width dm])"
      by (rule for_loop_append [where f = "\<lambda>s :: cloud. map (\<lambda>_. ()) (snd s)", OF _ run])
         (rule pixel_step_count)
  qed
  also have "\<dots> = concat (map ?g [0..<dm_height dm * dm_width dm])"
    using concat_rows [where g = ?g and w = "dm_width dm" and h = "dm_height dm"] by simp
  also have "\<dots> = map (\<lambda>_. ()) (concat (map (valid_at (dm_cells dm)) [0..<dm_height dm * dm_width dm]))"
    by (simp add: map_concat comp_def)
  also have "\<dots> = map (\<lambda>_. ()) (filter (\<lambda>s. s > 0) (dm_cells dm))"
    using len map_nth [of "dm_cells dm"] by (simp add: valid_at_filter)
  finally have "length (map (\<lambda>_. ()) (snd s')) = length (map (\<lambda>_. ()) (filter (\<lambda>s. s > 0) (dm_cells dm)))"
    by (rule arg_cong)
  then show ?thesis by simp
qed

lemma pixel_step_total:
  "\<exists>s'. pixel_step \<lparr>fx = Some a, fy = Some b, cx = Some c, cy = Some d\<rparr> im dm v u s = Inr s'"
  by (cases s) (simp add: pixel_step_def back_project_def bind_r_def Let_def)

lemma scan_pixels_total:
  "\<exists>s'. scan_pixels \<lparr>fx = Some a, fy = Some b, cx = Some c, cy = Some d\<rparr> im dm = Inr s'"
  unfolding scan_pixels_def
  by (rule for_loop_total, rule for_loop_total, rule pixel_step_total)

lemma resolve_complete:
  assumes "complete_intrinsics ci"
  shows "\<exists>a b c d. resolve_intrinsics ci dm = \<lparr>fx = Some a, fy = Some b, cx = Some c, cy = Some d\<rparr>"
proof (cases ci)
  case None
  then have "resolve_intrinsics ci dm =
      \<lparr>fx = Some (real (dm_width dm) * (8 / 10)), fy = Some (real (dm_width dm) * (8 / 10)),
       cx = Some (real (dm_width dm) / 2), cy = Some (real (dm_height dm) / 2)\<rparr>"
    by (simp add: resolve_intrinsics_def)
  then show ?thesis by blast
next
  case (Some l)
  show ?thesis
  proof (cases l)
    case Nil
    with Some have "resolve_intrinsics ci dm =
        \<lparr>fx = Some (real (dm_width dm) * (8 / 10)), fy = Some (real (dm_width dm) * (8 / 10)),
         cx = Some (real (dm_width dm) / 2), cy = Some (real (dm_height dm) / 2)\<rparr>"
      by (simp add: resolve_intrinsics_def)
    then show ?thesis by blast
  next
    case (Cons kv kvs)
    with Some assms obtain a b c d where
      "map_of (kv # kvs) ''fx'' = Some a" "map_of (kv # kvs) ''fy'' = Some b"
      "map_of (kv # kvs) ''cx'' = Some c" "map_of (kv # kvs) ''cy'' = Some d"
      unfolding complete_intrinsics_def by (auto simp del: map_of.simps)
    with Some Cons show ?thesis by (simp add: resolve_intrinsics_def del: map_of.simps)
  qed
qed

text \<open>
  C8. For a depth map in the flat format whose samples number \<open>width * height\<close>, every
  cloud the builder returns holds exactly one point for each strictly positive sample,
  in scan order, and none for a sample that is zero or negative: the depths of the
  points are the positive samples, so the cloud has as many points as there are
  positive samples, at most \<open>width * height\<close>, with one colour a point. The builder
  does return a cloud whenever the image was read and the intrinsics are absent or
  carry their four keys.
\<close>

theorem point_cloud_length:
  assumes "dd_depth_map d = None" and "dd_width d = Some w" and "dd_height d = Some h"
    and "dd_data d = Some samples" and "length samples = w * h"
  shows "(\<forall>points colors.
            create_point_cloud_from_depth d image_file ci = Inr (points, colors) \<longrightarrow>
              depths points = filter (\<lambda>s. s > 0) samples \<and>
              length points = length (filter (\<lambda>s. s > 0) samples) \<and>
              length points \<le> w * h \<and> length colors = length points)
       \<and> (image_file \<noteq> None \<and> complete_intrinsics ci \<longrightarrow>
            (\<exists>points colors. create_point_cloud_from_depth d image_file ci = Inr (points, colors)))"
proof -
  let ?dm = "\<lparr>dm_height = h, dm_width = w, dm_cells = samples\<rparr>"
  have conv: "convert_depth_data_to_depth_map d = Inr ?dm"
    using assms by (simp add: convert_depth_data_to_depth_map_def mult.commute)
  have len: "length (dm_cells ?dm) = dm_height ?dm * dm_width ?dm"
    using assms(5) by (simp add: mult.commute)
  have part: "depths points = filter (\<lambda>s. s > 0) samples \<and>
              length points = length (filter (\<lambda>s. s > 0) samples) \<and>
              length points \<le> w * h \<and> length colors = length points"
    if run: "create_point_cloud_from_depth d image_file ci = Inr (points, colors)"
    for points colors
  proof -
    from run conv obtain im where "image_file = Some im"
      and scan: "scan_pixels (resolve_intrinsics ci ?dm) im ?dm = Inr (points, colors)"
      by (cases image_file) (simp_all add: create_point_cloud_from_depth_def bind_r_Inr)
    have d: "depths points = filter (\<lambda>s. s > 0) samples"
      using scan_depths [OF scan len] by simp
    have c: "length colors = length (filter (\<lambda>s. s > 0) samples)"
      using scan_colors [OF scan len] by simp
    have l: "length points = length (filter (\<lambda>s. s > 0) samples)"
      using arg_cong [OF d, of length] by (simp add: depths_def)
    have "length (filter (\<lambda>s. s > 0) samples) \<le> length samples" by (rule length_filter_le)
    with d c l assms(5) show ?thesis by simp
  qed
  have total: "\<exists>points colors. create_point_cloud_from_depth d image_file ci = Inr (points, colors)"
    if "image_file \<noteq> None" and "complete_intrinsics ci"
  proof -
    from that(1) obtain im where im: "image_file = Some im" by blast
    from resolve_complete [OF that(2), of ?dm] obtain a b c e where
      k: "resolve_intrinsics ci ?dm = \<lparr>fx = Some a, fy = Some b, cx = Some c, cy = Some e\<rparr>"
      by blast
    from scan_pixels_total [of a b c e im ?dm] obtain s' where
      "scan_pixels \<lparr>fx = Some a, fy = Some b, cx = Some c, cy = Some e\<rparr> im ?dm = Inr s'" by blast
    then have "create_point_cloud_from_depth d image_file ci = Inr (fst s', snd s')"
      using conv im k by (simp add: create_point_cloud_from_depth_def bind_r_Inr)
    then show ?thesis by blast
  qed
  from part total show ?thesis by blast
qed


theorem point_cloud_length_witness:
  "\<exists>points colors.
     create_point_cloud_from_depth depth_example (Some image_example) None = Inr (points, colors)
     \<and> depths points = [1, 2] \<and> length points = 2 \<and> length colors = 2"
proof -
  have "complete_intrinsics None" by (simp add: complete_intrinsics_def)
  then show ?thesis
    using point_cloud_length [of depth_example 2 2 "[1, 0, - 1, 2]" "Some image_example" None]
    by (auto simp: depth_example_def)
qed




subsection \<open>Dimension aggregator\<close>

lemma door_dimensions: "map_of standard_dimensions (lower ''door'') = Some (90, 210)"
  by code_simp

theorem door_factor_counterexample:
  "calculate_calibration_from_objects [door_example 0] [] \<noteq> Inr 3"
  by (simp add: calculate_calibration_from_objects_def door_example_def object_step_def
      door_dimensions guarded_ratio_def py_truediv_def bind_r_def wall_step_def
      weighted_average_def)

text \<open>
  C1. For exactly one object of type door with detected width 45, detected height 105
  and confidence 1, and no walls, the aggregator collects the ratios \<open>90 / 45\<close> and
  \<open>210 / 105\<close>, each with weight 1, and returns their weighted average
  \<open>(90 / 45 + 210 / 105) / 2\<close>, which is 2 (and not 3).
\<close>

theorem door_factor:
  "object_loop [door_example len] [] = Inr [(90 / 45, 1), (210 / 105, 1)]
   \<and> calculate_calibration_from_objects [door_example len] [] = Inr ((90 / 45 + 210 / 105) / 2)
   \<and> calculate_calibration_from_objects [door_example len] [] = Inr 2"
  by (simp add: calculate_calibration_from_objects_def door_example_def object_step_def
      door_dimensions guarded_ratio_def py_truediv_def bind_r_def wall_step_def
      weighted_average_def)

lemma object_step_unrecognised:
  "map_of standard_dimensions (lower (obj_type obj)) = None \<Longrightarrow> object_step obj ratios = Inr ratios"
  by (simp add: object_step_def)

lemma object_loop_unrecognised:
  "list_all (\<lambda>obj. map_of standard_dimensions (lower (obj_type obj)) = None) objs
   \<Longrightarrow> object_loop objs ratios = Inr ratios"
  by (induction objs) (simp_all add: object_step_unrecognised bind_r_Inr)

lemma wall_fallback:
  assumes "list_all (\<lambda>obj. map_of standard_dimensions (lower (obj_type obj)) = None) objs"
    and "ws \<noteq> []" and "sum_list (map wall_length ws) \<noteq> 0"
  shows "wall_step ws [] =
           Inr [(standard_wall_height / (sum_list (map wall_length ws) / real (length ws) * 100), 7 / 10)]"
    and "calculate_calibration_from_objects objs ws =
           Inr (standard_wall_height / (sum_list (map wall_length ws) / real (length ws) * 100))"
proof -
  show w: "wall_step ws [] =
           Inr [(standard_wall_height / (sum_list (map wall_length ws) / real (length ws) * 100), 7 / 10)]"
    using assms(2,3) by (simp add: wall_step_def py_truediv_def bind_r_def)
  show "calculate_calibration_from_objects objs ws =
           Inr (standard_wall_height / (sum_list (map wall_length ws) / real (length ws) * 100))"
    using object_loop_unrecognised [OF assms(1), of "[]"] w
    by (simp add: calculate_calibration_from_objects_def bind_r_Inr weighted_average_def py_truediv_def)
qed

text \<open>
  C6. With no object and one wall of length 2.5 the aggregator returns
  \<open>250 / 250 = 1\<close>. With one wall of length 0 the mean length is 0 and the division
  \<^verbatim>\<open>standard_wall_height / (avg_wall_length * 100)\<close>, which has no guard, raises
  \<^verbatim>\<open>ZeroDivisionError\<close>: on that input the aggregator returns no factor.
\<close>

theorem wall_fallback_zero_length:
  "calculate_calibration_from_objects [] [\<lparr>wall_length = 5 / 2\<rparr>] = Inr 1
   \<and> calculate_calibration_from_objects [] [\<lparr>wall_length = 0\<rparr>] = Inl ZeroDivisionError"
  by (simp add: calculate_calibration_from_objects_def wall_step_def py_truediv_def bind_r_def
      weighted_average_def standard_wall_height_def)


lemma weights_snd: "map (\<lambda>(ratio, confidence). confidence) ratios = map snd ratios"
  by (induction ratios) auto

lemma weighted_average_returns: "\<exists>f. weighted_average ratios = Inr f"
proof (cases "ratios \<noteq> [] \<and> sum_list (map (\<lambda>(ratio, confidence). confidence) ratios) > 0")
  case True
  then have "weighted_average ratios =
      Inr (sum_list (map (\<lambda>(ratio, confidence). ratio * confidence) ratios)
           / sum_list (map (\<lambda>(ratio, confidence). confidence) ratios))"
    by (simp add: weighted_average_def py_truediv_def Let_def)
  then show ?thesis by blast
next
  case False
  then have "weighted_average ratios = Inr (1 / 10)"
    by (auto simp: weighted_average_def Let_def)
  then show ?thesis by blast
qed

lemma weighted_average_zero_weight:
  "ratios \<noteq> [] \<Longrightarrow> sum_list (map snd ratios) = 0 \<Longrightarrow> weighted_average ratios = Inr (1 / 10)"
  by (simp add: weighted_average_def weights_snd Let_def)

lemma guarded_ratio_returns: "\<exists>r. guarded_ratio std detected = Inr r"
  by (simp add: guarded_ratio_def py_truediv_def)

lemma object_step_weights:
  assumes "object_step obj ratios = Inr ratios'"
  shows "snd ` set ratios' \<subseteq> snd ` set ratios \<union> {obj_confidence obj}"
proof (cases "map_of standard_dimensions (lower (obj_type obj))")
  case None
  with assms show ?thesis by (auto simp: object_step_def)
next
  case (Some std)
  obtain sw sh where std: "std = (sw, sh)" by (cases std)
  obtain wr where wr: "guarded_ratio sw (obj_width obj) = Inr wr"
    using guarded_ratio_returns by blast
  obtain hr where hr: "guarded_ratio sh (obj_height obj) = Inr hr"
    using guarded_ratio_returns by blast
  from assms Some std wr hr show ?thesis
    by (auto simp: object_step_def bind_r_Inr Let_def split: if_splits)
qed

lemma object_loop_weights:
  "object_loop objs ratios = Inr ratios'
   \<Longrightarrow> snd ` set ratios' \<subseteq> snd ` set ratios \<union> obj_confidence ` set objs"
proof (induction objs arbitrary: ratios)
  case Nil
  then show ?case by auto
next
  case (Cons obj objs)
  from Cons.prems obtain r1 where r1: "object_step obj ratios = Inr r1"
      and rest: "object_loop objs r1 = Inr ratios'"
    using bind_r_eq_Inr [of "object_step obj ratios" "object_loop objs" ratios'] by auto
  from Cons.IH [OF rest] object_step_weights [OF r1] show ?case by auto
qed

lemma sum_list_all_zero: "\<forall>x \<in> set xs. f x = (0::real) \<Longrightarrow> sum_list (map f xs) = 0"
  by (induction xs) simp_all

text \<open>
  C10. The division of the weighted average is never carried out with a zero divisor:
  \<open>weighted_average\<close> returns a number on every list of ratios, it returns the default
  \<open>0.1\<close> on a non-empty list whose weights sum to zero, and so does the aggregator on
  objects whose confidences are all zero and that contribute at least one ratio.
\<close>

theorem zero_weight_default:
  "(\<exists>f. weighted_average ratios = Inr f)
   \<and> (ratios \<noteq> [] \<and> sum_list (map snd ratios) = 0 \<longrightarrow> weighted_average ratios = Inr (1 / 10))
   \<and> (list_all (\<lambda>obj. obj_confidence obj = 0) objs \<and> object_loop objs [] = Inr rs \<and> rs \<noteq> []
        \<longrightarrow> calculate_calibration_from_objects objs ws = Inr (1 / 10))"
proof -
  have third: "calculate_calibration_from_objects objs ws = Inr (1 / 10)"
    if z: "list_all (\<lambda>obj. obj_confidence obj = 0) objs"
      and run: "object_loop objs [] = Inr rs" and ne: "rs \<noteq> []"
  proof -
    from object_loop_weights [OF run] z have "\<forall>x \<in> set rs. snd x = 0"
      by (auto simp: list_all_iff)
    then have "sum_list (map snd rs) = 0" by (rule sum_list_all_zero)
    with ne have "weighted_average rs = Inr (1 / 10)" by (rule weighted_average_zero_weight)
    moreover from ne have "wall_step ws rs = Inr rs" by (simp add: wall_step_def)
    ultimately show ?thesis
      using run by (simp add: calculate_calibration_from_objects_def bind_r_Inr)
  qed
  from weighted_average_returns weighted_average_zero_weight third show ?thesis by blast
qed

theorem zero_weight_default_witness:
  "weighted_average [(2, 0), (2, 0)] = Inr (1 / 10)
   \<and> calculate_calibration_from_objects [unsure_door] [\<lparr>wall_length = 3\<rparr>] = Inr (1 / 10)"
proof -
  have "object_loop [unsure_door] [] = Inr [(2, 0), (2, 0)]"
    by (simp add: unsure_door_def object_step_def door_dimensions guarded_ratio_def
        py_truediv_def bind_r_def)
  then show ?thesis
    using zero_weight_default [where ratios = "[(2, 0), (2, 0)]" and objs = "[unsure_door]"
        and rs = "[(2, 0), (2, 0)]" and ws = "[\<lparr>wall_length = 3\<rparr>]"]
    by (simp add: unsure_door_def)
qed


subsection \<open>Layout parser\<close>

lemma six_field_wall_tokens:
  "split_nl (strip ''WALL 0 0 0 1 0 0'') = [''WALL 0 0 0 1 0 0'']"
  "startswith ''WALL 0 0 0 1 0 0'' ''WALL''"
  "length (split ''WALL 0 0 0 1 0 0'') = 7"
  by code_simp+

text \<open>
  C2. The line \<^verbatim>\<open>WALL 0 0 0 1 0 0\<close> carries the six coordinates and splits into
  seven tokens. The parser asks for \<^verbatim>\<open>len(parts) >= 8\<close>, so the line is passed over:
  no wall is produced, and the extraction returns the default factor \<open>0.1\<close> with no
  wall and no object.
\<close>

theorem six_field_wall_skipped:
  "parse_layout ''WALL 0 0 0 1 0 0'' = Inr ([], [])
   \<and> extract_calibration_from_layout ''WALL 0 0 0 1 0 0'' point_cloud =
       Inr \<lparr>lr_calibration_factor = 1 / 10, lr_confidence = 9 / 10, lr_objects = [], lr_walls = []\<rparr>"
  by (simp add: extract_calibration_from_layout_def parse_layout_def six_field_wall_tokens
      layout_step_def wall_line_def bind_r_def calculate_calibration_from_objects_def
      wall_step_def weighted_average_def)

text \<open>
  With one more token the same coordinates give the wall, and its length is the
  Euclidean distance of the two end points.
\<close>

lemma seven_field_wall_tokens:
  "split_nl (strip ''WALL 0 0 0 1 0 0 0'') = [''WALL 0 0 0 1 0 0 0'']"
  "startswith ''WALL 0 0 0 1 0 0 0'' ''WALL''"
  "split ''WALL 0 0 0 1 0 0 0'' = [''WALL'', ''0'', ''0'', ''0'', ''1'', ''0'', ''0'', ''0'']"
  "to_float ''0'' = Inr 0"
  "to_float ''1'' = Inr 1"
  by code_simp+

lemma seven_field_wall_parsed:
  "parse_layout ''WALL 0 0 0 1 0 0 0'' = Inr ([], [\<lparr>wall_length = 1\<rparr>])"
  by (simp add: parse_layout_def seven_field_wall_tokens layout_step_def wall_line_def bind_r_def)

lemma wall_line_euclidean:
  assumes "length parts \<ge> 8"
    and "to_float (parts ! 1) = Inr x1" and "to_float (parts ! 2) = Inr y1"
    and "to_float (parts ! 3) = Inr z1" and "to_float (parts ! 4) = Inr x2"
    and "to_float (parts ! 5) = Inr y2" and "to_float (parts ! 6) = Inr z2"
  shows "wall_line parts ws =
           Inr (ws @ [\<lparr>wall_length = sqrt ((x2 - x1)\<^sup>2 + (y2 - y1)\<^sup>2 + (z2 - z1)\<^sup>2)\<rparr>])"
  using assms by (simp add: wall_line_def bind_r_def)

lemma door_line_tokens:
  "split_nl (strip ''OBJECT door 0 0 0 0.9 0.5 2.1 0 0 0 0.95'') =
     [''OBJECT door 0 0 0 0.9 0.5 2.1 0 0 0 0.95'']"
  "startswith ''OBJECT door 0 0 0 0.9 0.5 2.1 0 0 0 0.95'' ''WALL'' = False"
  "startswith ''OBJECT door 0 0 0 0.9 0.5 2.1 0 0 0 0.95'' ''OBJECT''"
  "split ''OBJECT door 0 0 0 0.9 0.5 2.1 0 0 0 0.95'' =
     [''OBJECT'', ''door'', ''0'', ''0'', ''0'', ''0.9'', ''0.5'', ''2.1'', ''0'', ''0'', ''0'', ''0.95'']"
  "to_float ''0.9'' = Inr (9 / 10)"
  "to_float ''0.5'' = Inr (1 / 2)"
  "to_float ''2.1'' = Inr (21 / 10)"
  "to_float ''0.95'' = Inr (95 / 100)"
  by code_simp+

lemma short_door_line_tokens:
  "split_nl (strip ''OBJECT door 0 0 0 0.9 0.5 2.1 0 0 0.5'') =
     [''OBJECT door 0 0 0 0.9 0.5 2.1 0 0 0.5'']"
  "startswith ''OBJECT door 0 0 0 0.9 0.5 2.1 0 0 0.5'' ''WALL'' = False"
  "startswith ''OBJECT door 0 0 0 0.9 0.5 2.1 0 0 0.5'' ''OBJECT''"
  "split ''OBJECT door 0 0 0 0.9 0.5 2.1 0 0 0.5'' =
     [''OBJECT'', ''door'', ''0'', ''0'', ''0'', ''0.9'', ''0.5'', ''2.1'', ''0'', ''0'', ''0.5'']"
  by code_simp+

text \<open>
  C3. On \<^verbatim>\<open>OBJECT door 0 0 0 0.9 0.5 2.1 0 0 0 0.95\<close> the parser gives one object
  with width 50, height 210 and length 90 (the extents times 100), and confidence 0:
  the confidence is read from \<^verbatim>\<open>parts[10]\<close>, the tenth field \<^verbatim>\<open>psi\<close>, not from the
  eleventh field \<^verbatim>\<open>0.95\<close>. Without an eleventh field the confidence is again the tenth
  field (here 0.5), not the default \<open>0.9\<close>.
\<close>

theorem object_confidence_from_psi:
  "parse_layout ''OBJECT door 0 0 0 0.9 0.5 2.1 0 0 0 0.95'' =
     Inr ([\<lparr>obj_type = ''door'', obj_width = 50, obj_height = 210, obj_length = 90,
            obj_confidence = 0\<rparr>], [])
   \<and> parse_layout ''OBJECT door 0 0 0 0.9 0.5 2.1 0 0 0.5'' =
     Inr ([\<lparr>obj_type = ''door'', obj_width = 50, obj_height = 210, obj_length = 90,
            obj_confidence = 1 / 2\<rparr>], [])"
  by (simp add: parse_layout_def door_line_tokens short_door_line_tokens
      seven_field_wall_tokens layout_step_def object_line_def bind_r_def)


text \<open>
  In general an \<^verbatim>\<open>OBJECT\<close> line of at least 11 tokens takes its confidence from
  \<^verbatim>\<open>parts[10]\<close>: the branch with the default is never taken.
\<close>

lemma object_line_fields:
  assumes "length parts \<ge> 11"
    and "to_float (parts ! 2) = Inr x" and "to_float (parts ! 3) = Inr y"
    and "to_float (parts ! 4) = Inr z" and "to_float (parts ! 5) = Inr l"
    and "to_float (parts ! 6) = Inr w" and "to_float (parts ! 7) = Inr h"
    and "to_float (parts ! 10) = Inr psi"
  shows "object_line parts objs =
           Inr (objs @ [\<lparr>obj_type = parts ! 1, obj_width = w * 100, obj_height = h * 100,
                         obj_length = l * 100, obj_confidence = psi\<rparr>])"
  using assms by (simp add: object_line_def bind_r_def)

lemma layout_step_skipped: "skipped line \<Longrightarrow> layout_step line st = Inr st"
proof (cases st)
  case (Pair objs ws)
  assume sk: "skipped line"
  show ?thesis
  proof (cases "startswith line ''WALL''")
    case True
    with sk have "\<not> 8 \<le> length (split line)" by (simp add: skipped_def)
    with True Pair show ?thesis by (simp add: layout_step_def wall_line_def bind_r_Inr)
  next
    case False
    show ?thesis
    proof (cases "startswith line ''OBJECT''")
      case True
      with sk False have "\<not> 11 \<le> length (split line)" by (simp add: skipped_def)
      with True False Pair show ?thesis by (simp add: layout_step_def object_line_def bind_r_Inr)
    next
      case no: False
      with False Pair show ?thesis by (simp add: layout_step_def)
    qed
  qed
qed

lemma layout_loop_filter:
  "layout_loop (filter (\<lambda>l. \<not> skipped l) ls) st = layout_loop ls st"
proof (induction ls arbitrary: st)
  case Nil
  show ?case by simp
next
  case (Cons l ls)
  show ?case
  proof (cases "skipped l")
    case True
    then show ?thesis using Cons.IH by (simp add: layout_step_skipped bind_r_Inr)
  next
    case False
    show ?thesis
    proof (cases "layout_step l st")
      case (Inl e)
      with False show ?thesis by (simp add: bind_r_Inl)
    next
      case (Inr st1)
      with False show ?thesis using Cons.IH by (simp add: bind_r_Inr)
    qed
  qed
qed

lemma layout_loop_all_skipped: "list_all skipped ls \<Longrightarrow> layout_loop ls st = Inr st"
  by (induction ls) (simp_all add: layout_step_skipped bind_r_Inr)

lemma empty_text_lines: "split_nl (strip []) = [[]]" "skipped []"
  by code_simp+

lemma bad_wall_tokens:
  "split_nl (strip ''WALL a b c d e f g'') = [''WALL a b c d e f g'']"
  "startswith ''WALL a b c d e f g'' ''WALL''"
  "split ''WALL a b c d e f g'' = [''WALL'', ''a'', ''b'', ''c'', ''d'', ''e'', ''f'', ''g'']"
  "to_float ''a'' = Inl ValueError"
  by code_simp+

lemma empty_text_parsed: "parse_layout [] = Inr ([], [])"
  by (simp add: parse_layout_def empty_text_lines layout_step_skipped bind_r_Inr)

theorem parser_failure_counterexample:
  "parse_layout [] = Inr ([], []) \<and> parse_layout ''WALL a b c d e f g'' = Inl ValueError"
proof -
  have "parse_layout ''WALL a b c d e f g'' = Inl ValueError"
    by (simp add: parse_layout_def bad_wall_tokens layout_step_def wall_line_def bind_r_def)
  with empty_text_parsed show ?thesis by (rule conjI)
qed

text \<open>
  C7. Lines that start with neither \<^verbatim>\<open>WALL\<close> nor \<^verbatim>\<open>OBJECT\<close>, and \<^verbatim>\<open>WALL\<close> or
  \<^verbatim>\<open>OBJECT\<close> lines with too few fields (fewer than six after \<^verbatim>\<open>WALL\<close>, fewer than ten
  after \<^verbatim>\<open>OBJECT\<close>), are passed over without error: removing them from the input
  changes nothing, and a text made of such lines only leaves the state as it was.
  The empty text is parsed without error and gives no wall and no object.
\<close>

theorem skipped_lines_ignored:
  "layout_loop (filter (\<lambda>l. \<not> skipped l) ls) st = layout_loop ls st
   \<and> (list_all skipped ls \<longrightarrow> layout_loop ls st = Inr st)
   \<and> parse_layout [] = Inr ([], [])"
  by (intro conjI impI)
     (rule layout_loop_filter, erule layout_loop_all_skipped, rule empty_text_parsed)

lemma skipped_examples:
  "skipped ''# living room''" "skipped ''WALL 1 2''" "skipped ''OBJECT door 1 2 3''"
  "skipped '' WALL 0 0 0 1 0 0 0''"
  by code_simp+

theorem skipped_lines_ignored_witness:
  "layout_loop [''# living room'', ''WALL 1 2'', ''OBJECT door 1 2 3'', '' WALL 0 0 0 1 0 0 0'']
     ([], []) = Inr ([], [])"
proof -
  have "list_all skipped
          [''# living room'', ''WALL 1 2'', ''OBJECT door 1 2 3'', '' WALL 0 0 0 1 0 0 0'']"
    by (simp add: skipped_examples)
  with skipped_lines_ignored
    [where ls = "[''# living room'', ''WALL 1 2'', ''OBJECT door 1 2 3'', '' WALL 0 0 0 1 0 0 0'']"
       and st = "([], [])"]
  show ?thesis by blast
qed


subsection \<open>Spatial strategy and strategy selection\<close>

lemma spatial_try_failure:
  "bridge_available env \<Longrightarrow>
   spatial_try env image_path depth_map_path point_cloud_path camera_intrinsics_path = Inl e \<Longrightarrow>
   calculate_spatial_calibration env image_path depth_map_path point_cloud_path
       camera_intrinsics_path =
     \<lparr>cal_type = Some ''spatial'', cal_method = ''spatial'', cal_factor = 5 / 100,
      cal_confidence = 7 / 10, cal_unit = ''cm/pixel'', cal_reference = None\<rparr>"
  by (simp add: calculate_spatial_calibration_def)

lemma spatial_bridge_missing:
  "\<not> bridge_available env \<Longrightarrow>
   calculate_spatial_calibration env image_path depth_map_path point_cloud_path
       camera_intrinsics_path =
     \<lparr>cal_type = Some ''spatial'', cal_method = ''spatial'', cal_factor = 5 / 100,
      cal_confidence = 8 / 10, cal_unit = ''cm/pixel'', cal_reference = None\<rparr>"
  by (simp add: calculate_spatial_calibration_def)

text \<open>
  C4. When \<^verbatim>\<open>process_lidar_data\<close> raises on the arguments the spatial strategy calls it
  with, the strategy raises nothing: it returns a result with method \<^verbatim>\<open>spatial\<close>, the
  factor \<open>0.05\<close> and a confidence between \<open>0.7\<close> and \<open>0.8\<close> (\<open>0.7\<close> from the
  handler; \<open>0.8\<close> is the value when the bridge module is missing and the collaborator
  is never called).
\<close>

theorem spatial_fallback:
  assumes "load_optional env camera_intrinsics_path = Inr camera_intrinsics"
    and "load_optional env depth_map_path = Inr depth_data"
    and "process_lidar_data env image_path depth_data point_cloud_path camera_intrinsics = Inl e"
  shows "cal_method (calculate_spatial_calibration env image_path depth_map_path
             point_cloud_path camera_intrinsics_path) = ''spatial''
       \<and> cal_factor (calculate_spatial_calibration env image_path depth_map_path
             point_cloud_path camera_intrinsics_path) = 5 / 100
       \<and> 7 / 10 \<le> cal_confidence (calculate_spatial_calibration env image_path depth_map_path
             point_cloud_path camera_intrinsics_path)
       \<and> cal_confidence (calculate_spatial_calibration env image_path depth_map_path
             point_cloud_path camera_intrinsics_path) \<le> 8 / 10"
proof (cases "bridge_available env")
  case True
  have "spatial_try env image_path depth_map_path point_cloud_path camera_intrinsics_path = Inl e"
    using assms by (simp add: spatial_try_def bind_r_Inr bind_r_Inl)
  from spatial_try_failure [OF True this] show ?thesis by simp
next
  case False
  from spatial_bridge_missing [OF False] show ?thesis by simp
qed

theorem spatial_fallback_witness:
  "calculate_spatial_calibration failing_bridge ''photo.jpg'' (Some ''depth.json'') None None =
     \<lparr>cal_type = Some ''spatial'', cal_method = ''spatial'', cal_factor = 5 / 100,
      cal_confidence = 7 / 10, cal_unit = ''cm/pixel'', cal_reference = None\<rparr>"
proof -
  have "load_optional failing_bridge None = Inr None"
    and "load_optional failing_bridge (Some ''depth.json'') = Inr (Some ())"
    and "process_lidar_data failing_bridge ''photo.jpg'' (Some ()) None None = Inl ValueError"
    by (simp_all add: load_optional_def failing_bridge_def bind_r_def)
  from spatial_fallback [OF this]
  show ?thesis
    by (simp add: calculate_spatial_calibration_def spatial_try_def load_optional_def
        failing_bridge_def bind_r_def)
qed

theorem direct_precedence_counterexample:
  "pa_calibration_factor height_with_factor = Some (1 / 2)
   \<and> main example_env height_with_factor =
       Inr \<lparr>cal_type = None, cal_method = ''height'', cal_factor = 175 / 500,
            cal_confidence = 9 / 10, cal_unit = ''cm/pixel'', cal_reference = None\<rparr>"
  by (simp add: main_def main_calibration_def dispatch_calibration_def
      process_image_with_calibration_def height_with_factor_def example_env_def
      truthy_float_def calculate_height_calibration_def py_truediv_def bind_r_def)

lemma spatial_try_method:
  assumes "spatial_try env image_path depth_map_path point_cloud_path camera_intrinsics_path = Inr r"
  shows "cal_method r = ''spatial''"
proof -
  from assms obtain ci where
    "bind_r (load_optional env depth_map_path) (\<lambda>depth_data.
       bind_r (process_lidar_data env image_path depth_data point_cloud_path ci)
         (\<lambda>calibration_result.
       bind_r (subscript calibration_result ''calibration_factor'') (\<lambda>f.
       bind_r (subscript calibration_result ''confidence'') (\<lambda>c.
         Inr \<lparr>cal_type = Some ''spatial'', cal_method = ''spatial'', cal_factor = f,
              cal_confidence = c, cal_unit = ''cm/pixel'', cal_reference = None\<rparr>)))) = Inr r"
    unfolding spatial_try_def using bind_r_eq_Inr by fastforce
  then obtain dd where
    "bind_r (process_lidar_data env image_path dd point_cloud_path ci)
         (\<lambda>calibration_result.
       bind_r (subscript calibration_result ''calibration_factor'') (\<lambda>f.
       bind_r (subscript calibration_result ''confidence'') (\<lambda>c.
         Inr \<lparr>cal_type = Some ''spatial'', cal_method = ''spatial'', cal_factor = f,
              cal_confidence = c, cal_unit = ''cm/pixel'', cal_reference = None\<rparr>))) = Inr r"
    using bind_r_eq_Inr by fastforce
  then obtain res where
    "bind_r (subscript res ''calibration_factor'') (\<lambda>f.
       bind_r (subscript res ''confidence'') (\<lambda>c.
         Inr \<lparr>cal_type = Some ''spatial'', cal_method = ''spatial'', cal_factor = f,
              cal_confidence = c, cal_unit = ''cm/pixel'', cal_reference = None\<rparr>)) = Inr r"
    using bind_r_eq_Inr by fastforce
  then obtain f where
    "bind_r (subscript res ''confidence'') (\<lambda>c.
         Inr \<lparr>cal_type = Some ''spatial'', cal_method = ''spatial'', cal_factor = f,
              cal_confidence = c, cal_unit = ''cm/pixel'', cal_reference = None\<rparr>) = Inr r"
    using bind_r_eq_Inr by fastforce
  then obtain c where
    "r = \<lparr>cal_type = Some ''spatial'', cal_method = ''spatial'', cal_factor = f,
              cal_confidence = c, cal_unit = ''cm/pixel'', cal_reference = None\<rparr>"
    using bind_r_eq_Inr by fastforce
  then show ?thesis by simp
qed

lemma spatial_method:
  "cal_method (calculate_spatial_calibration env image_path depth_map_path point_cloud_path
       camera_intrinsics_path) = ''spatial''"
proof (cases "bridge_available env")
  case False
  then show ?thesis by (simp add: calculate_spatial_calibration_def)
next
  case True
  show ?thesis
  proof (cases "spatial_try env image_path depth_map_path point_cloud_path camera_intrinsics_path")
    case (Inl e)
    with True show ?thesis by (simp add: calculate_spatial_calibration_def)
  next
    case (Inr r)
    with True spatial_try_method [OF Inr] show ?thesis
      by (simp add: calculate_spatial_calibration_def)
  qed
qed

lemma dispatch_method:
  assumes "dispatch_calibration env q = Inr r"
  shows "cal_method r = method_name (pa_calibration q)"
proof (cases "pa_calibration q")
  case Direct
  with assms show ?thesis
    by (auto simp: dispatch_calibration_def split: if_splits)
next
  case Height
  with assms have t: "truthy_float (pa_person_height q)"
    by (auto simp: dispatch_calibration_def split: if_splits)
  with assms Height obtain im where "imread env (pa_input q) = Some im"
    and "bind_r (calculate_height_calibration (detect_person_height_mediapipe env)
                   (detect_person_height_fallback env) im (the (pa_person_height q)))
           (\<lambda>calibration_factor.
              Inr \<lparr>cal_type = None, cal_method = ''height'', cal_factor = calibration_factor,
                   cal_confidence = 9 / 10, cal_unit = ''cm/pixel'', cal_reference = None\<rparr>)
         = Inr r"
    by (cases "imread env (pa_input q)") (simp_all add: dispatch_calibration_def)
  then obtain cf where
    "r = \<lparr>cal_type = None, cal_method = ''height'', cal_factor = cf,
          cal_confidence = 9 / 10, cal_unit = ''cm/pixel'', cal_reference = None\<rparr>"
    using bind_r_eq_Inr by fastforce
  with Height show ?thesis by simp
next
  case Reference
  with assms have
    "bind_r (reference_dimensions q) (\<lambda>(ref_width, ref_height).
       (case imread env (pa_input q) of
          None \<Rightarrow> Inl ValueError
        | Some im \<Rightarrow>
            Inr \<lparr>cal_type = None, cal_method = ''reference'',
                 cal_factor = calculate_reference_calibration im ref_width ref_height,
                 cal_confidence = 85 / 100, cal_unit = ''cm/pixel'',
                 cal_reference =
                   Some (if truthy_str (pa_reference_object q)
                         then the (pa_reference_object q) else ''custom'',
                         ref_width, ref_height)\<rparr>)) = Inr r"
    by (simp add: dispatch_calibration_def)
  then obtain d where
    "(case d of (ref_width, ref_height) \<Rightarrow>
       (case imread env (pa_input q) of
          None \<Rightarrow> Inl ValueError
        | Some im \<Rightarrow>
            Inr \<lparr>cal_type = None, cal_method = ''reference'',
                 cal_factor = calculate_reference_calibration im ref_width ref_height,
                 cal_confidence = 85 / 100, cal_unit = ''cm/pixel'',
                 cal_reference =
                   Some (if truthy_str (pa_reference_object q)
                         then the (pa_reference_object q) else ''custom'',
                         ref_width, ref_height)\<rparr>)) = Inr r"
    using bind_r_eq_Inr by fastforce
  then have "cal_method r = ''reference''"
    by (cases d; cases "imread env (pa_input q)") auto
  with Reference show ?thesis by simp
next
  case Spatial
  with assms have
    "bind_r (if truthy_str (pa_camera_intrinsics q)
             then bind_r (json_loads env (the (pa_camera_intrinsics q))) (\<lambda>j. Inr (Some j))
             else Inr None) (\<lambda>camera_intrinsics.
       Inr (calculate_spatial_calibration (spatial env) (pa_input q) (pa_depth_map q)
              None (pa_camera_intrinsics q))) = Inr r"
    by (simp add: dispatch_calibration_def)
  then have "r = calculate_spatial_calibration (spatial env) (pa_input q) (pa_depth_map q)
              None (pa_camera_intrinsics q)"
    using bind_r_eq_Inr by fastforce
  with Spatial spatial_method show ?thesis by simp
qed

lemma main_dispatch:
  assumes "main env q = Inr r"
  shows "dispatch_calibration env q = Inr r"
proof -
  from assms obtain cal where cal: "main_calibration env q = Inr cal"
    and rest: "bind_r (process_image_with_calibration env (pa_input q) cal)
       (\<lambda>visualized_image.
         bind_r (imwrite env (pa_output q) visualized_image) (\<lambda>u. Inr cal)) = Inr r"
    unfolding main_def using bind_r_eq_Inr by fastforce
  from rest obtain vis where "bind_r (imwrite env (pa_output q) vis) (\<lambda>u. Inr cal) = Inr r"
    using bind_r_eq_Inr by fastforce
  then have "cal = r" using bind_r_eq_Inr by fastforce
  moreover from cal have "dispatch_calibration env q = Inr cal"
    unfolding main_calibration_def using bind_r_eq_Inr by (fastforce split: if_splits)
  ultimately show ?thesis by simp
qed


lemma main_missing_input: "\<not> isfile env (pa_input p) \<Longrightarrow> main env p = Inl FileNotFoundError"
  by (simp add: main_def main_calibration_def bind_r_Inl)

lemma main_direct:
  assumes "isfile env (pa_input p)" and "makedirs env (dirname (pa_output p)) = Inr ()"
    and "imread env (pa_input p) = Some im"
    and "draw env im \<lparr>cal_type = None, cal_method = ''direct'', cal_factor = f,
           cal_confidence = 1, cal_unit = ''cm/pixel'', cal_reference = None\<rparr> = Inr vis"
    and "imwrite env (pa_output p) vis = Inr ()"
    and "pa_calibration p = Direct" and "pa_calibration_factor p = Some f" and "f \<noteq> 0"
  shows "main env p =
           Inr \<lparr>cal_type = None, cal_method = ''direct'', cal_factor = f,
                cal_confidence = 1, cal_unit = ''cm/pixel'', cal_reference = None\<rparr>"
proof -
  have "dispatch_calibration env p =
          Inr \<lparr>cal_type = None, cal_method = ''direct'', cal_factor = f,
               cal_confidence = 1, cal_unit = ''cm/pixel'', cal_reference = None\<rparr>"
    using assms(6-8) by (simp add: dispatch_calibration_def truthy_float_def)
  then have "main_calibration env p =
          Inr \<lparr>cal_type = None, cal_method = ''direct'', cal_factor = f,
               cal_confidence = 1, cal_unit = ''cm/pixel'', cal_reference = None\<rparr>"
    using assms(1,2) by (simp add: main_calibration_def bind_r_Inr)
  moreover have "process_image_with_calibration env (pa_input p)
          \<lparr>cal_type = None, cal_method = ''direct'', cal_factor = f,
           cal_confidence = 1, cal_unit = ''cm/pixel'', cal_reference = None\<rparr> = Inr vis"
    using assms(3,4) by (simp add: process_image_with_calibration_def bind_r_Inr)
  ultimately show ?thesis
    using assms(5) by (simp add: main_def bind_r_Inr)
qed

text \<open>
  C5. Without a method named on the command line, \<^verbatim>\<open>determine_calibration_method\<close>
  follows the precedence direct, height, spatial, reference over the inputs that are
  given and truthy: a non-zero calibration factor selects direct whatever else is
  given, then a non-zero person height selects height, then a depth map or a point
  cloud selects spatial, and reference is the default. A method named on the command
  line is used as named: \<^verbatim>\<open>wrapper.py\<close> selects it, and every result of \<^verbatim>\<open>main\<close> in
  \<^verbatim>\<open>python/wrapper.py\<close>, where the method is always named, carries the name of that
  method. There, the method direct with a non-zero factor gives a result with method
  \<^verbatim>\<open>direct\<close> and confidence 1, whatever else is given, when the input is a file that
  the image library reads, the output directory can be made and the picture is drawn
  and written.
\<close>

theorem method_precedence:
  "(truthy_float (wa_calibration_factor args_d) \<longrightarrow> determine_calibration_method args_d = Direct)
   \<and> (\<not> truthy_float (wa_calibration_factor args_h) \<and> truthy_float (wa_person_height args_h)
        \<longrightarrow> determine_calibration_method args_h = Height)
   \<and> (\<not> truthy_float (wa_calibration_factor args_s) \<and> \<not> truthy_float (wa_person_height args_s)
        \<and> (truthy_str (wa_depth_map args_s) \<or> truthy_str (wa_point_cloud args_s))
        \<longrightarrow> determine_calibration_method args_s = Spatial)
   \<and> (\<not> truthy_float (wa_calibration_factor args_r) \<and> \<not> truthy_float (wa_person_height args_r)
        \<and> \<not> truthy_str (wa_depth_map args_r) \<and> \<not> truthy_str (wa_point_cloud args_r)
        \<longrightarrow> determine_calibration_method args_r = Reference)
   \<and> (wa_calibration_method args_e = None \<and> truthy_float (wa_calibration_factor args_e)
        \<longrightarrow> selected_method args_e = Direct)
   \<and> (wa_calibration_method args_n = Some m \<longrightarrow> selected_method args_n = m)
   \<and> (main env q = Inr r \<longrightarrow> cal_method r = method_name (pa_calibration q))
   \<and> (isfile env (pa_input p) \<and> makedirs env (dirname (pa_output p)) = Inr ()
        \<and> imread env (pa_input p) = Some im
        \<and> draw env im \<lparr>cal_type = None, cal_method = ''direct'', cal_factor = f,
             cal_confidence = 1, cal_unit = ''cm/pixel'', cal_reference = None\<rparr> = Inr vis
        \<and> imwrite env (pa_output p) vis = Inr ()
        \<and> pa_calibration p = Direct \<and> pa_calibration_factor p = Some f \<and> f \<noteq> 0
        \<longrightarrow> main env p =
              Inr \<lparr>cal_type = None, cal_method = ''direct'', cal_factor = f,
                   cal_confidence = 1, cal_unit = ''cm/pixel'', cal_reference = None\<rparr>)"
proof -
  have "main env q = Inr r \<longrightarrow> cal_method r = method_name (pa_calibration q)"
    using dispatch_method [OF main_dispatch] by blast
  moreover have "wa_calibration_method args_n = Some m \<longrightarrow> selected_method args_n = m"
    by (simp add: selected_method_def)
  moreover have "wa_calibration_method args_e = None \<and> truthy_float (wa_calibration_factor args_e)
        \<longrightarrow> selected_method args_e = Direct"
    by (simp add: selected_method_def determine_calibration_method_def)
  moreover have "truthy_float (wa_calibration_factor args_d)
        \<longrightarrow> determine_calibration_method args_d = Direct"
    by (simp add: determine_calibration_method_def)
  moreover have "\<not> truthy_float (wa_calibration_factor args_h) \<and> truthy_float (wa_person_height args_h)
        \<longrightarrow> determine_calibration_method args_h = Height"
    by (simp add: determine_calibration_method_def)
  moreover have "\<not> truthy_float (wa_calibration_factor args_s) \<and> \<not> truthy_float (wa_person_height args_s)
        \<and> (truthy_str (wa_depth_map args_s) \<or> truthy_str (wa_point_cloud args_s))
        \<longrightarrow> determine_calibration_method args_s = Spatial"
    by (simp add: determine_calibration_method_def)
  moreover have "\<not> truthy_float (wa_calibration_factor args_r) \<and> \<not> truthy_float (wa_person_height args_r)
        \<and> \<not> truthy_str (wa_depth_map args_r) \<and> \<not> truthy_str (wa_point_cloud args_r)
        \<longrightarrow> determine_calibration_method args_r = Reference"
    by (simp add: determine_calibration_method_def)
  moreover have "isfile env (pa_input p) \<and> makedirs env (dirname (pa_output p)) = Inr ()
        \<and> imread env (pa_input p) = Some im
        \<and> draw env im \<lparr>cal_type = None, cal_method = ''direct'', cal_factor = f,
             cal_confidence = 1, cal_unit = ''cm/pixel'', cal_reference = None\<rparr> = Inr vis
        \<and> imwrite env (pa_output p) vis = Inr ()
        \<and> pa_calibration p = Direct \<and> pa_calibration_factor p = Some f \<and> f \<noteq> 0
        \<longrightarrow> main env p =
              Inr \<lparr>cal_type = None, cal_method = ''direct'', cal_factor = f,
                   cal_confidence = 1, cal_unit = ''cm/pixel'', cal_reference = None\<rparr>"
    using main_direct [of env p im f vis] by blast
  ultimately show ?thesis by (intro conjI)
qed

theorem method_precedence_witness:
  "determine_calibration_method
     (no_inputs\<lparr>wa_calibration_factor := Some (1 / 2), wa_person_height := Some 175\<rparr>) = Direct
   \<and> determine_calibration_method
     (no_inputs\<lparr>wa_person_height := Some 175, wa_depth_map := Some ''depth.json''\<rparr>) = Height
   \<and> determine_calibration_method
     (no_inputs\<lparr>wa_depth_map := Some ''depth.json'', wa_reference_object := Some ''a4_paper''\<rparr>)
       = Spatial
   \<and> determine_calibration_method no_inputs = Reference
   \<and> selected_method
     (no_inputs\<lparr>wa_calibration_factor := Some (1 / 2), wa_person_height := Some 175\<rparr>) = Direct
   \<and> selected_method
     (no_inputs\<lparr>wa_calibration_method := Some Height, wa_calibration_factor := Some (1 / 2)\<rparr>)
       = Height
   \<and> cal_method \<lparr>cal_type = None, cal_method = ''height'', cal_factor = 175 / 500,
        cal_confidence = 9 / 10, cal_unit = ''cm/pixel'', cal_reference = None\<rparr>
       = method_name (pa_calibration height_with_factor)
   \<and> main example_env direct_with_height =
       Inr \<lparr>cal_type = None, cal_method = ''direct'', cal_factor = 1 / 2,
            cal_confidence = 1, cal_unit = ''cm/pixel'', cal_reference = None\<rparr>"
proof -
  have run: "main example_env height_with_factor =
       Inr \<lparr>cal_type = None, cal_method = ''height'', cal_factor = 175 / 500,
            cal_confidence = 9 / 10, cal_unit = ''cm/pixel'', cal_reference = None\<rparr>"
    by (simp add: main_def main_calibration_def dispatch_calibration_def
        process_image_with_calibration_def height_with_factor_def example_env_def
        truthy_float_def calculate_height_calibration_def py_truediv_def bind_r_def)
  have env: "isfile example_env (pa_input direct_with_height)"
    "makedirs example_env (dirname (pa_output direct_with_height)) = Inr ()"
    "imread example_env (pa_input direct_with_height) = Some ()"
    "draw example_env () \<lparr>cal_type = None, cal_method = ''direct'', cal_factor = 1 / 2,
       cal_confidence = 1, cal_unit = ''cm/pixel'', cal_reference = None\<rparr> = Inr ()"
    "imwrite example_env (pa_output direct_with_height) () = Inr ()"
    "pa_calibration direct_with_height = Direct"
    "pa_calibration_factor direct_with_height = Some (1 / 2)"
    by (simp_all add: example_env_def direct_with_height_def height_with_factor_def)
  from run env method_precedence
    [where args_d = "no_inputs\<lparr>wa_calibration_factor := Some (1 / 2), wa_person_height := Some 175\<rparr>"
       and args_h = "no_inputs\<lparr>wa_person_height := Some 175, wa_depth_map := Some ''depth.json''\<rparr>"
       and args_s = "no_inputs\<lparr>wa_depth_map := Some ''depth.json'',
                   wa_reference_object := Some ''a4_paper''\<rparr>"
       and args_r = no_inputs
       and args_e = "no_inputs\<lparr>wa_calibration_factor := Some (1 / 2), wa_person_height := Some 175\<rparr>"
       and args_n = "no_inputs\<lparr>wa_calibration_method := Some Height,
                   wa_calibration_factor := Some (1 / 2)\<rparr>"
       and m = Height
       and env = example_env and q = height_with_factor
       and r = "\<lparr>cal_type = None, cal_method = ''height'', cal_factor = 175 / 500,
            cal_confidence = 9 / 10, cal_unit = ''cm/pixel'', cal_reference = None\<rparr>"
       and p = direct_with_height and f = "1 / 2" and im = "()" and vis = "()"]
  show ?thesis
    by (simp add: no_inputs_def truthy_float_def truthy_str_def)
qed

end
